theory Spec2Isabelle
  imports Complex_Main "HOL-Library.Multiset" "HOL-Library.List_Lexorder" "HOL-Library.Char_ord"
begin

section \<open>Top5.py: year validation\<close>

text \<open>
  \<^verbatim>\<open>validate_years(start_year, end_year)\<close> of Top5.py. Python integers are unbounded,
  so the years are \<^typ>\<open>int\<close>. The body is one guard that returns False and a final
  \<^verbatim>\<open>return True\<close>.
\<close>

definition validate_years :: "int \<Rightarrow> int \<Rightarrow> bool" where
  "validate_years start_year end_year =
     (if start_year < 1998 \<or> end_year > 2020 \<or> start_year > end_year then False else True)"

section \<open>Shared modelling conventions\<close>

text \<open>
  The three scripts hold their tables in pandas dataframes. A dataframe is modelled as the
  list of its rows in index order, each row a record with one field per column.
  Metric columns are floating-point in the scripts; they are modelled by exact rationals,
  so rounding and NaN are outside the model. A text column read from the database may be
  NULL, which pandas stores as \<^verbatim>\<open>None\<close>: the genre column is therefore a
  \<^typ>\<open>string option\<close>.
\<close>

datatype py_error = AttributeError | KeyError | ValueError

text \<open>
  \<^verbatim>\<open>Series.mean()\<close> over a group. The groups built below are never empty; the
  quotient by zero that HOL evaluates to \<open>0\<close> is not reached.
\<close>

definition mean :: "rat list \<Rightarrow> rat" where
  "mean xs = sum_list xs / of_nat (length xs)"

text \<open>
  \<^verbatim>\<open>str.split(', ')\<close>: cut at every occurrence of the two-character delimiter, scanning
  from the left. A comma and a blank cannot overlap with themselves, so a match consumes
  both characters and scanning resumes behind them. The result always has at least one
  piece; nothing is stripped from the pieces.
\<close>

fun split_genres :: "string \<Rightarrow> string list" where
  "split_genres [] = [[]]"
| "split_genres [c] = [[c]]"
| "split_genres (c # d # cs) =
     (if c = CHR '','' \<and> d = CHR '' '' then [] # split_genres cs
      else (case split_genres (d # cs) of
              [] \<Rightarrow> [[c]]
            | p # ps \<Rightarrow> (c # p) # ps))"

text \<open>
  \<^verbatim>\<open>groupby('Genre')\<close> with pandas' defaults: rows whose key is missing are dropped
  (\<^verbatim>\<open>dropna=True\<close>), and the groups come out sorted by key (\<^verbatim>\<open>sort=True\<close>), strings
  being compared character by character.
\<close>

record genre_keyed =
  Genre :: "string option"

definition group_keys :: "'a genre_keyed_scheme list \<Rightarrow> string list" where
  "group_keys rows = sort (remdups (List.map_filter Genre rows))"

definition group_rows :: "'a genre_keyed_scheme list \<Rightarrow> string \<Rightarrow> 'a genre_keyed_scheme list" where
  "group_rows rows k = filter (\<lambda>r. Genre r = Some k) rows"

section \<open>Artist.py: splitting and aggregating genres\<close>

record artist_genre_row = genre_keyed +
  avg_popularity_artist :: rat
  avg_popularity_overall :: rat

text \<open>
  The loop of \<^verbatim>\<open>split_and_aggregate\<close>: for every row, in order, one dictionary per piece
  of \<^verbatim>\<open>row['Genre'].split(', ')\<close> with the two metrics of the row (the inner loop,
  \<open>label_rows\<close>). A NULL genre is \<^verbatim>\<open>None\<close>, which has no \<^verbatim>\<open>split\<close>: the loop raises
  \<^verbatim>\<open>AttributeError\<close> there.
\<close>

definition label_rows :: "artist_genre_row \<Rightarrow> string list \<Rightarrow> artist_genre_row list" where
  "label_rows row genres =
     map (\<lambda>genre. \<lparr>Genre = Some genre,
                     avg_popularity_artist = avg_popularity_artist row,
                     avg_popularity_overall = avg_popularity_overall row\<rparr>) genres"

fun expand_rows :: "artist_genre_row list \<Rightarrow> py_error + artist_genre_row list" where
  "expand_rows [] = Inr []"
| "expand_rows (row # data) =
     (case Genre row of
        None \<Rightarrow> Inl AttributeError
      | Some g \<Rightarrow>
          (case expand_rows data of
             Inl e \<Rightarrow> Inl e
           | Inr rest \<Rightarrow> Inr (label_rows row (split_genres g) @ rest)))"

text \<open>\<^verbatim>\<open>df.groupby('Genre', as_index=False).mean()\<close>: one row per label, both metrics averaged.\<close>

definition groupby_mean :: "artist_genre_row list \<Rightarrow> artist_genre_row list" where
  "groupby_mean df =
     map (\<lambda>k. \<lparr>Genre = Some k,
               avg_popularity_artist = mean (map avg_popularity_artist (group_rows df k)),
               avg_popularity_overall = mean (map avg_popularity_overall (group_rows df k))\<rparr>)
         (group_keys df)"

text \<open>
  \<^verbatim>\<open>split_and_aggregate(data)\<close>. When the loop has appended nothing, \<^verbatim>\<open>pd.DataFrame([])\<close>
  has no columns at all and \<^verbatim>\<open>groupby('Genre')\<close> raises \<^verbatim>\<open>KeyError\<close>.
\<close>

definition split_and_aggregate :: "artist_genre_row list \<Rightarrow> py_error + artist_genre_row list" where
  "split_and_aggregate data =
     (case expand_rows data of
        Inl e \<Rightarrow> Inl e
      | Inr rows \<Rightarrow> if rows = [] then Inl KeyError else Inr (groupby_mean rows))"

section \<open>Genres.py: the yearly genre summary\<close>

record summary_row = genre_keyed +
  AvgDanceability :: rat
  AvgDuration :: rat
  AvgPopularity :: rat
  TotalSongs :: int

text \<open>
  Lines 71 and 72 of \<^verbatim>\<open>fetch_year_summary_and_plot\<close>: \<^verbatim>\<open>.str.split(', ')\<close> turns every
  genre into the list of its pieces and leaves a missing genre missing; \<^verbatim>\<open>explode\<close>
  then repeats the row once per piece, the other columns as they are, and keeps a row
  whose genre is missing as it is.
\<close>

definition explode :: "summary_row list \<Rightarrow> summary_row list" where
  "explode df =
     concat (map (\<lambda>row. case Genre row of
                           None \<Rightarrow> [row]
                         | Some g \<Rightarrow> map (\<lambda>genre. row\<lparr>Genre := Some genre\<rparr>) (split_genres g))
                 df)"

text \<open>
  Lines 75 to 80: \<^verbatim>\<open>groupby('Genre').agg({... 'mean', 'mean', 'mean', 'sum'}).reset_index()\<close>.
\<close>

definition groupby_agg :: "summary_row list \<Rightarrow> summary_row list" where
  "groupby_agg df =
     map (\<lambda>k. \<lparr>Genre = Some k,
               AvgDanceability = mean (map AvgDanceability (group_rows df k)),
               AvgDuration = mean (map AvgDuration (group_rows df k)),
               AvgPopularity = mean (map AvgPopularity (group_rows df k)),
               TotalSongs = sum_list (map TotalSongs (group_rows df k))\<rparr>)
         (group_keys df)"

text \<open>
  What the function shows on the terminal and on screen, in order. The database is not
  part of the repository: \<open>query\<close> stands for the rows that the SQL statement returns for
  a year. The frame is printed first and the pie chart drawn from its song counts after
  that; \<^verbatim>\<open>plt.pie\<close> raises \<^verbatim>\<open>ValueError\<close> when it is given no wedge at all (the frame
  that remains when every genre of the year is NULL) or a negative size. The counts of a
  query result are those of \<^verbatim>\<open>COUNT\<close> over at least one song, so they are positive.
\<close>

datatype genres_event =
    NoDataAvailable int
  | PrintSummary "summary_row list"
  | PieChart "summary_row list"

definition pie :: "summary_row list \<Rightarrow> py_error + genres_event list" where
  "pie dfSummary =
     (if dfSummary = [] \<or> list_ex (\<lambda>r. TotalSongs r < 0) dfSummary then Inl ValueError
      else Inr [PieChart dfSummary])"

definition fetch_year_summary_and_plot ::
  "(int \<Rightarrow> summary_row list) \<Rightarrow> int \<Rightarrow> py_error + genres_event list" where
  "fetch_year_summary_and_plot query year =
     (let dfSummary = query year in
      if dfSummary = [] then Inr [NoDataAvailable year]
      else (let dfSummary = groupby_agg (explode dfSummary)
            in case pie dfSummary of
                 Inl e \<Rightarrow> Inl e
               | Inr drawn \<Rightarrow> Inr (PrintSummary dfSummary # drawn)))"

section \<open>Top5.py: ranking artists\<close>

text \<open>
  The dataframe returned by \<^verbatim>\<open>get_artist_data\<close> has the four columns of the SQL
  statement; \<^verbatim>\<open>calculate_rank_value\<close> adds a fifth and \<^verbatim>\<open>get_top_artists\<close> a sixth.
  Each stage of the frame has its own row type, an extension of the one before.
\<close>

record artist_row =
  ArtistName :: string
  Year :: int
  num_songs :: int
  avg_popularity :: rat

record ranked_row = artist_row +
  rank_value :: rat

record top_row = ranked_row +
  avg_rank_value :: rat

datatype frame =
    Raw "artist_row list"
  | Ranked "ranked_row list"
  | Averaged "top_row list"

text \<open>
  Both functions assign a column to the dataframe object they are given, so the caller
  sees the change. Dataframe objects therefore live in a store: \<open>objs\<close> maps a reference
  to the object's current contents and \<open>fresh\<close> is the next unused reference. A reference
  held by the program is below \<open>fresh\<close>.
\<close>

record store =
  objs :: "nat \<Rightarrow> frame"
  fresh :: nat

definition assign :: "store \<Rightarrow> nat \<Rightarrow> frame \<Rightarrow> store" where
  "assign h ref f = h\<lparr>objs := (objs h)(ref := f)\<rparr>"

definition alloc :: "store \<Rightarrow> frame \<Rightarrow> store \<times> nat" where
  "alloc h f = (h\<lparr>objs := (objs h)(fresh h := f), fresh := Suc (fresh h)\<rparr>, fresh h)"

text \<open>The right-hand side of line 75, for one row.\<close>

definition rank_of :: "rat \<Rightarrow> rat \<Rightarrow> 'a artist_row_scheme \<Rightarrow> rat" where
  "rank_of weight_x weight_y r = (of_int (num_songs r) * weight_x) + (avg_popularity r * weight_y)"

text \<open>
  \<^verbatim>\<open>calculate_rank_value(data, weight_x, weight_y)\<close>: assigns the column to the object
  behind \<open>data\<close> (replacing the column if the frame has it already) and returns \<open>data\<close>.
\<close>

definition calculate_rank_value :: "store \<Rightarrow> nat \<Rightarrow> rat \<Rightarrow> rat \<Rightarrow> store \<times> nat" where
  "calculate_rank_value h data weight_x weight_y =
     (case objs h data of
        Raw rs \<Rightarrow>
          (assign h data
             (Ranked (map (\<lambda>r. \<lparr>ArtistName = ArtistName r, Year = Year r, num_songs = num_songs r,
                                 avg_popularity = avg_popularity r,
                                 rank_value = rank_of weight_x weight_y r\<rparr>) rs)), data)
      | Ranked rs \<Rightarrow>
          (assign h data (Ranked (map (\<lambda>r. r\<lparr>rank_value := rank_of weight_x weight_y r\<rparr>) rs)), data)
      | Averaged rs \<Rightarrow>
          (assign h data (Averaged (map (\<lambda>r. r\<lparr>rank_value := rank_of weight_x weight_y r\<rparr>) rs)), data))"

definition default_weight :: rat where
  "default_weight = 1 / 2"

text \<open>
  \<^verbatim>\<open>data.groupby('ArtistName')['rank_value'].transform('mean')\<close>: the value for a row is
  the mean of the rank values of all rows of the frame with the row's artist name.
\<close>

definition group_mean_rank :: "'a ranked_row_scheme list \<Rightarrow> 'a ranked_row_scheme \<Rightarrow> rat" where
  "group_mean_rank rs r = mean (map rank_value (filter (\<lambda>x. ArtistName x = ArtistName r) rs))"

text \<open>\<^verbatim>\<open>drop_duplicates('ArtistName')\<close>: of the rows with one name, the first stays.\<close>

fun drop_duplicates_from :: "string list \<Rightarrow> 'a artist_row_scheme list \<Rightarrow> 'a artist_row_scheme list" where
  "drop_duplicates_from seen [] = []"
| "drop_duplicates_from seen (r # rs) =
     (if ArtistName r \<in> set seen then drop_duplicates_from seen rs
      else r # drop_duplicates_from (ArtistName r # seen) rs)"

definition drop_duplicates :: "'a artist_row_scheme list \<Rightarrow> 'a artist_row_scheme list" where
  "drop_duplicates rs = drop_duplicates_from [] rs"

text \<open>\<^verbatim>\<open>head(n)\<close>: the first \<open>n\<close> rows; for a negative \<open>n\<close>, all rows but the last \<open>-n\<close>.\<close>

definition head :: "int \<Rightarrow> 'a list \<Rightarrow> 'a list" where
  "head n xs = (if 0 \<le> n then take (nat n) xs else take (length xs - nat (- n)) xs)"

text \<open>
  \<^verbatim>\<open>get_top_artists(data, top_n)\<close>. Line 91 calls \<^verbatim>\<open>sort_values\<close> without a \<^verbatim>\<open>kind\<close>, and
  the library's default algorithm is not part of the repository: the sort is the parameter
  \<open>sort_values\<close>, and what the library promises of it is \<open>sorts_descending\<close> below. Line 90
  needs the column \<^verbatim>\<open>rank_value\<close> and raises \<^verbatim>\<open>KeyError\<close> on a frame without it; it
  assigns the column \<^verbatim>\<open>avg_rank_value\<close> to the object behind \<open>data\<close>. Line 91 is
  \<open>top_artists\<close>, and line 92 (\<open>rows_isin\<close>) builds a new dataframe object.
\<close>

definition add_avg_rank_value :: "ranked_row list \<Rightarrow> top_row list" where
  "add_avg_rank_value rs =
     map (\<lambda>r. \<lparr>ArtistName = ArtistName r, Year = Year r, num_songs = num_songs r,
                 avg_popularity = avg_popularity r, rank_value = rank_value r,
                 avg_rank_value = group_mean_rank rs r\<rparr>) rs"

definition set_avg_rank_value :: "top_row list \<Rightarrow> top_row list" where
  "set_avg_rank_value rs = map (\<lambda>r. r\<lparr>avg_rank_value := group_mean_rank rs r\<rparr>) rs"

definition top_artists :: "(top_row list \<Rightarrow> top_row list) \<Rightarrow> top_row list \<Rightarrow> int \<Rightarrow> top_row list" where
  "top_artists sort_values data top_n = head top_n (drop_duplicates (sort_values data))"

definition rows_isin :: "top_row list \<Rightarrow> top_row list \<Rightarrow> top_row list" where
  "rows_isin data chosen = filter (\<lambda>r. ArtistName r \<in> set (map ArtistName chosen)) data"

definition get_top_artists ::
  "(top_row list \<Rightarrow> top_row list) \<Rightarrow> store \<Rightarrow> nat \<Rightarrow> int \<Rightarrow> py_error + store \<times> nat" where
  "get_top_artists sort_values h data top_n =
     (case objs h data of
        Raw rs \<Rightarrow> Inl KeyError
      | Ranked rs \<Rightarrow>
          (let rs' = add_avg_rank_value rs
           in Inr (alloc (assign h data (Averaged rs'))
                         (Averaged (rows_isin rs' (top_artists sort_values rs' top_n)))))
      | Averaged rs \<Rightarrow>
          (let rs' = set_avg_rank_value rs
           in Inr (alloc (assign h data (Averaged rs'))
                         (Averaged (rows_isin rs' (top_artists sort_values rs' top_n))))))"

definition default_top_n :: int where
  "default_top_n = 5"

text \<open>
  What \<^verbatim>\<open>sort_values(by='avg_rank_value', ascending=False)\<close> guarantees of its result on
  the frame \<open>rs\<close>: the same rows, in descending order of the key.
\<close>

definition sorts_descending :: "(top_row list \<Rightarrow> top_row list) \<Rightarrow> top_row list \<Rightarrow> bool" where
  "sorts_descending sort_values rs =
     (mset (sort_values rs) = mset rs \<and>
      sorted_wrt (\<lambda>a b. avg_rank_value a \<ge> avg_rank_value b) (sort_values rs))"

text \<open>
  A sort that meets the guarantee and keeps rows with equal keys in the order of the frame.
\<close>

definition stable_descending :: "top_row list \<Rightarrow> top_row list" where
  "stable_descending rs = sort_key (\<lambda>r. - avg_rank_value r) rs"

text \<open>
  The display functions. \<^verbatim>\<open>display_table\<close> prints the frame and its pivot;
  \<^verbatim>\<open>plot_data\<close> pivots by year and artist, which raises \<^verbatim>\<open>ValueError\<close> when a year and
  artist occur twice, and draws the chart.
\<close>

datatype top5_event =
    NoDataFound int int
  | DisplayTable "top_row list"
  | PlotData "top_row list"
  | PrintTop5 int int "top_row list"
  | PlotRankValues "top_row list"

definition display_table :: "top_row list \<Rightarrow> top5_event list" where
  "display_table data = [DisplayTable data]"

definition plot_data :: "top_row list \<Rightarrow> py_error + top5_event list" where
  "plot_data data =
     (if distinct (map (\<lambda>r. (Year r, ArtistName r)) data) then Inr [PlotData data]
      else Inl ValueError)"

text \<open>
  \<^verbatim>\<open>get_top_5_artists_by_year_range(start_year, end_year)\<close>. \<open>query\<close> stands for the rows
  that \<^verbatim>\<open>get_artist_data\<close> reads from the database. The function has one \<^verbatim>\<open>return\<close>,
  in the branch for an empty frame; the other branch ends without one, so the caller
  receives \<^verbatim>\<open>None\<close> from both. The result is the list of events and the returned value.
\<close>

definition get_top_5_artists_by_year_range ::
  "(top_row list \<Rightarrow> top_row list) \<Rightarrow> (int \<Rightarrow> int \<Rightarrow> artist_row list) \<Rightarrow> int \<Rightarrow> int
     \<Rightarrow> py_error + top5_event list \<times> top_row list option" where
  "get_top_5_artists_by_year_range sort_values query start_year end_year =
     (let artist_data = query start_year end_year in
      if artist_data = [] then Inr ([NoDataFound start_year end_year], None)
      else
        (let h0 = \<lparr>objs = (\<lambda>_. Raw [])(0 := Raw artist_data), fresh = 1\<rparr>;
             (h1, artist_data) = calculate_rank_value h0 0 default_weight default_weight
         in case get_top_artists sort_values h1 artist_data default_top_n of
              Inl e \<Rightarrow> Inl e
            | Inr (h2, top_artists_data) \<Rightarrow>
                (case objs h2 top_artists_data of
                   Averaged rows \<Rightarrow>
                     (case plot_data rows of
                        Inl e \<Rightarrow> Inl e
                      | Inr shown \<Rightarrow> Inr (display_table rows @ shown, None))
                 | _ \<Rightarrow> Inl KeyError)))"

text \<open>\<^verbatim>\<open>plot_top_5_artists_rank_values\<close>: returns at once when it is handed \<^verbatim>\<open>None\<close>.\<close>

definition plot_top_5_artists_rank_values ::
  "(top_row list \<Rightarrow> top_row list) \<Rightarrow> (int \<Rightarrow> int \<Rightarrow> artist_row list) \<Rightarrow> int \<Rightarrow> int
     \<Rightarrow> py_error + top5_event list" where
  "plot_top_5_artists_rank_values sort_values query start_year end_year =
     (case get_top_5_artists_by_year_range sort_values query start_year end_year of
        Inl e \<Rightarrow> Inl e
      | Inr (shown, None) \<Rightarrow> Inr shown
      | Inr (shown, Some top_5_artists) \<Rightarrow>
          Inr (shown @ [PrintTop5 start_year end_year top_5_artists, PlotRankValues top_5_artists]))"

section \<open>Notions used to state the properties\<close>

text \<open>
  Where the delimiter occurs in a string, and the inverse of splitting: the labels written
  one after the other with the delimiter between them.
\<close>

fun has_delim :: "string \<Rightarrow> bool" where
  "has_delim [] = False"
| "has_delim [c] = False"
| "has_delim (c # d # cs) = ((c = CHR '','' \<and> d = CHR '' '') \<or> has_delim (d # cs))"

fun join_genres :: "string list \<Rightarrow> string" where
  "join_genres [] = []"
| "join_genres [l] = l"
| "join_genres (l # ls) = l @ '', '' @ join_genres ls"

text \<open>A label with the blanks at both ends removed, as the specification's word "trimmed" has it.\<close>

definition trimmed :: "string \<Rightarrow> string" where
  "trimmed s = rev (dropWhile (\<lambda>c. c = CHR '' '') (rev (dropWhile (\<lambda>c. c = CHR '' '') s)))"

text \<open>The overall average of a metric column: the mean over all rows of a frame, unfiltered.\<close>

definition overall_average :: "('r \<Rightarrow> rat) \<Rightarrow> 'r list \<Rightarrow> rat" where
  "overall_average metric rows = mean (map metric rows)"

text \<open>The dataframe that a call hands back, read from the store it leaves behind.\<close>

definition returned_frame :: "py_error + store \<times> nat \<Rightarrow> py_error + frame" where
  "returned_frame res = (case res of Inl e \<Rightarrow> Inl e | Inr (h, ref) \<Rightarrow> Inr (objs h ref))"

section \<open>Example frames\<close>

text \<open>
  A store with one dataframe object, at reference \<open>0\<close>, and small frames: the two
  artists of the specification's ranking example, a frame in which three artists have the
  same mean rank value, a frame in ascending order of the rank value whose last two artists
  are tied, and a frame with two years for one artist.
\<close>

definition store_of :: "frame \<Rightarrow> store" where
  "store_of f = \<lparr>objs = (\<lambda>_. Raw [])(0 := f), fresh = 1\<rparr>"

definition raw_example :: "artist_row list" where
  "raw_example =
     [\<lparr>ArtistName = ''A'', Year = 2000, num_songs = 10, avg_popularity = 50\<rparr>,
      \<lparr>ArtistName = ''B'', Year = 2000, num_songs = 5, avg_popularity = 90\<rparr>]"

definition tied_example :: "ranked_row list" where
  "tied_example =
     [\<lparr>ArtistName = ''A'', Year = 2000, num_songs = 10, avg_popularity = 50, rank_value = 30\<rparr>,
      \<lparr>ArtistName = ''B'', Year = 2000, num_songs = 10, avg_popularity = 50, rank_value = 30\<rparr>,
      \<lparr>ArtistName = ''C'', Year = 2000, num_songs = 10, avg_popularity = 50, rank_value = 30\<rparr>]"

definition ascending_example :: "ranked_row list" where
  "ascending_example =
     [\<lparr>ArtistName = ''A'', Year = 2000, num_songs = 10, avg_popularity = 10, rank_value = 10\<rparr>,
      \<lparr>ArtistName = ''B'', Year = 2000, num_songs = 10, avg_popularity = 50, rank_value = 30\<rparr>,
      \<lparr>ArtistName = ''C'', Year = 2000, num_songs = 10, avg_popularity = 90, rank_value = 50\<rparr>,
      \<lparr>ArtistName = ''D'', Year = 2000, num_songs = 20, avg_popularity = 80, rank_value = 50\<rparr>]"

definition ranked_example :: "ranked_row list" where
  "ranked_example =
     [\<lparr>ArtistName = ''A'', Year = 2000, num_songs = 10, avg_popularity = 50, rank_value = 30\<rparr>,
      \<lparr>ArtistName = ''B'', Year = 2000, num_songs = 5, avg_popularity = 90, rank_value = 95 / 2\<rparr>,
      \<lparr>ArtistName = ''A'', Year = 2001, num_songs = 8, avg_popularity = 60, rank_value = 34\<rparr>]"

text \<open>
  Frames for the genre normalizers: the specification's example of a composite genre next to
  a plain one, with the frame it aggregates to; a frame of single labels out of order; a frame
  of two rows with the same two labels, with the frame it aggregates to; and the
  specification's example for the yearly summary.
\<close>

definition genre_example :: "artist_genre_row list" where
  "genre_example =
     [\<lparr>Genre = Some ''Pop, Rock'', avg_popularity_artist = 80, avg_popularity_overall = 80\<rparr>,
      \<lparr>Genre = Some ''Pop'', avg_popularity_artist = 60, avg_popularity_overall = 60\<rparr>]"

definition genre_example_out :: "artist_genre_row list" where
  "genre_example_out =
     [\<lparr>Genre = Some ''Pop'', avg_popularity_artist = 70, avg_popularity_overall = 70\<rparr>,
      \<lparr>Genre = Some ''Rock'', avg_popularity_artist = 80, avg_popularity_overall = 80\<rparr>]"

definition single_label_example :: "artist_genre_row list" where
  "single_label_example =
     [\<lparr>Genre = Some ''Rock'', avg_popularity_artist = 80, avg_popularity_overall = 75\<rparr>,
      \<lparr>Genre = Some ''Pop'', avg_popularity_artist = 60, avg_popularity_overall = 65\<rparr>]"

definition balanced_example :: "artist_genre_row list" where
  "balanced_example =
     [\<lparr>Genre = Some ''Pop, Rock'', avg_popularity_artist = 80, avg_popularity_overall = 90\<rparr>,
      \<lparr>Genre = Some ''Rock, Pop'', avg_popularity_artist = 60, avg_popularity_overall = 70\<rparr>]"

definition balanced_example_out :: "artist_genre_row list" where
  "balanced_example_out =
     [\<lparr>Genre = Some ''Pop'', avg_popularity_artist = 70, avg_popularity_overall = 80\<rparr>,
      \<lparr>Genre = Some ''Rock'', avg_popularity_artist = 70, avg_popularity_overall = 80\<rparr>]"

definition summary_example :: "summary_row list" where
  "summary_example =
     [\<lparr>Genre = Some ''Pop, Rock'', AvgDanceability = 1 / 2, AvgDuration = 200, AvgPopularity = 80, TotalSongs = 3\<rparr>,
      \<lparr>Genre = Some ''Pop'', AvgDanceability = 1 / 4, AvgDuration = 100, AvgPopularity = 60, TotalSongs = 2\<rparr>]"

section \<open>Lemmas about the ranking\<close>

lemma mean_single: "mean [x] = x"
  by (simp add: mean_def)

lemma ddf_names:
  "set (map ArtistName (drop_duplicates_from seen rs)) = set (map ArtistName rs) - set seen"
  by (induction rs arbitrary: seen) auto

lemma ddf_distinct: "distinct (map ArtistName (drop_duplicates_from seen rs))"
  by (induction rs arbitrary: seen) (auto simp: ddf_names simp del: set_map)

lemma ddf_subset: "set (drop_duplicates_from seen rs) \<subseteq> set rs"
  by (induction rs arbitrary: seen) auto

lemma ddf_sorted: "sorted_wrt R rs \<Longrightarrow> sorted_wrt R (drop_duplicates_from seen rs)"
proof (induction rs arbitrary: seen)
  case Nil
  then show ?case by simp
next
  case (Cons r rs)
  then show ?case using ddf_subset[of "ArtistName r # seen" rs] by auto
qed

lemma length_drop_duplicates:
  "length (drop_duplicates rs) = card (image ArtistName (set rs))"
proof -
  have "length (drop_duplicates rs) = length (map ArtistName (drop_duplicates rs))" by simp
  also have "\<dots> = card (set (map ArtistName (drop_duplicates rs)))"
    by (rule distinct_card[symmetric]) (simp add: drop_duplicates_def ddf_distinct)
  also have "\<dots> = card (image ArtistName (set rs))"
    using ddf_names[of "[]" rs] by (simp add: drop_duplicates_def)
  finally show ?thesis .
qed

lemma head_is_take: "\<exists>m. head n xs = take m xs"
  by (auto simp: head_def)

lemma head_nonneg: "0 \<le> n \<Longrightarrow> head n xs = take (nat n) xs"
  by (simp add: head_def)

lemma sorted_wrt_take_drop:
  assumes "sorted_wrt R xs" "x \<in> set (take m xs)" "y \<in> set (drop m xs)"
  shows "R x y"
proof -
  have "sorted_wrt R (take m xs @ drop m xs)" using assms(1) by simp
  then show ?thesis using assms(2,3) unfolding sorted_wrt_append by blast
qed

lemma add_avg_names: "map ArtistName (add_avg_rank_value rs) = map ArtistName rs"
  by (simp add: add_avg_rank_value_def comp_def)

lemma add_avg_value:
  "r \<in> set (add_avg_rank_value rs) \<Longrightarrow>
     avg_rank_value r = mean (map rank_value (filter (\<lambda>x. ArtistName x = ArtistName r) rs))"
  by (auto simp: add_avg_rank_value_def group_mean_rank_def)

lemma add_avg_keyed:
  "a \<in> set (add_avg_rank_value rs) \<Longrightarrow> b \<in> set (add_avg_rank_value rs) \<Longrightarrow>
   ArtistName a = ArtistName b \<Longrightarrow> avg_rank_value a = avg_rank_value b"
  by (simp add: add_avg_value)

lemma top_subset:
  assumes "mset s = mset xs"
  shows "set (head n (drop_duplicates s)) \<subseteq> set xs"
proof -
  obtain m where "head n (drop_duplicates s) = take m (drop_duplicates s)"
    using head_is_take by blast
  moreover have "set (take m (drop_duplicates s)) \<subseteq> set s"
    using set_take_subset ddf_subset unfolding drop_duplicates_def by fast
  moreover have "set s = set xs" using assms by (rule mset_eq_setD)
  ultimately show ?thesis by simp
qed

lemma top_distinct: "distinct (map ArtistName (head n (drop_duplicates s)))"
proof -
  obtain m where "head n (drop_duplicates s) = take m (drop_duplicates s)"
    using head_is_take by blast
  then show ?thesis
    using ddf_distinct[of "[]" s] by (simp add: drop_duplicates_def take_map[symmetric])
qed

lemma isin_names:
  assumes "set chosen \<subseteq> set xs"
  shows "image ArtistName (set (rows_isin xs chosen)) = image ArtistName (set chosen)"
  using assms by (auto simp: rows_isin_def)

lemma isin_fixpoint:
  assumes "set chosen \<subseteq> set xs"
  shows "rows_isin xs chosen = filter (\<lambda>r. ArtistName r \<in> image ArtistName (set (rows_isin xs chosen))) xs"
  unfolding isin_names[OF assms] by (simp add: rows_isin_def)

lemma top_order:
  assumes perm: "mset s = mset xs"
    and srt: "sorted_wrt (\<lambda>a b. avg_rank_value a \<ge> avg_rank_value b) s"
    and keyed: "\<And>a b. a \<in> set xs \<Longrightarrow> b \<in> set xs \<Longrightarrow> ArtistName a = ArtistName b
                  \<Longrightarrow> avg_rank_value a = avg_rank_value b"
    and a: "a \<in> set xs" "ArtistName a \<in> image ArtistName (set (head n (drop_duplicates s)))"
    and b: "b \<in> set xs" "ArtistName b \<notin> image ArtistName (set (head n (drop_duplicates s)))"
  shows "avg_rank_value b \<le> avg_rank_value a"
proof -
  obtain m where m: "head n (drop_duplicates s) = take m (drop_duplicates s)"
    using head_is_take by blast
  have sets: "set s = set xs" using perm by (rule mset_eq_setD)
  have dds: "set (drop_duplicates s) \<subseteq> set xs"
    using ddf_subset[of "[]" s] sets by (simp add: drop_duplicates_def)
  from a(2) obtain ta where ta: "ta \<in> set (take m (drop_duplicates s))" "ArtistName ta = ArtistName a"
    unfolding m by force
  have "ArtistName b \<in> set (map ArtistName (drop_duplicates s))"
    using b(1) sets ddf_names[of "[]" s] by (simp add: drop_duplicates_def)
  then obtain tb where tb: "tb \<in> set (drop_duplicates s)" "ArtistName tb = ArtistName b"
    by force
  have "tb \<notin> set (take m (drop_duplicates s))"
    using b(2) tb(2) unfolding m by (metis imageI)
  with tb(1) have tbd: "tb \<in> set (drop m (drop_duplicates s))"
    by (metis Un_iff append_take_drop_id set_append)
  have "sorted_wrt (\<lambda>a b. avg_rank_value a \<ge> avg_rank_value b) (drop_duplicates s)"
    using srt by (simp add: drop_duplicates_def ddf_sorted)
  from sorted_wrt_take_drop[OF this ta(1) tbd] have "avg_rank_value tb \<le> avg_rank_value ta" .
  moreover have "avg_rank_value ta = avg_rank_value a"
    using keyed[of ta a] ta a(1) dds set_take_subset[of m "drop_duplicates s"] by blast
  moreover have "avg_rank_value tb = avg_rank_value b"
    using keyed[of tb b] tb b(1) dds by blast
  ultimately show ?thesis by simp
qed

lemma top_length:
  assumes "mset s = mset xs" "0 \<le> n"
  shows "length (head n (drop_duplicates s)) = min (nat n) (card (image ArtistName (set xs)))"
  using assms mset_eq_setD[OF assms(1)] by (simp add: head_nonneg length_drop_duplicates)

lemma top_card:
  "card (image ArtistName (set (head n (drop_duplicates s)))) = length (head n (drop_duplicates s))"
  using distinct_card[OF top_distinct[of n s]] by simp

lemma ddf_takeWhile:
  "takeWhile (\<lambda>r. ArtistName r \<noteq> b) (drop_duplicates_from seen s) =
   drop_duplicates_from seen (takeWhile (\<lambda>r. ArtistName r \<noteq> b) s)" if "b \<notin> set seen"
  using that by (induction s arbitrary: seen) auto

lemma takeWhile_subset_take:
  assumes "b \<in> image f (set (take m xs))"
  shows "set (takeWhile (\<lambda>r. f r \<noteq> b) xs) \<subseteq> set (take m xs)"
proof -
  let ?k = "length (takeWhile (\<lambda>r. f r \<noteq> b) xs)"
  have eq: "takeWhile (\<lambda>r. f r \<noteq> b) xs = take ?k xs" by (rule takeWhile_eq_take)
  have "?k \<le> m"
  proof (rule ccontr)
    assume "\<not> ?k \<le> m"
    then have "take m xs = take m (take ?k xs)" by (simp add: min_def)
    then have "set (take m xs) \<subseteq> set (takeWhile (\<lambda>r. f r \<noteq> b) xs)"
      using eq set_take_subset by metis
    then have "\<forall>r\<in>set (take m xs). f r \<noteq> b" using set_takeWhileD by fast
    with assms show False by blast
  qed
  then show ?thesis using eq set_take_subset_set_take by metis
qed

lemma before_filter:
  assumes "\<And>r. r \<in> set s \<Longrightarrow> f r = a \<or> f r = b \<Longrightarrow> K r"
  shows "(a \<in> image f (set (takeWhile (\<lambda>r. f r \<noteq> b) (filter K s)))) =
         (a \<in> image f (set (takeWhile (\<lambda>r. f r \<noteq> b) s)))"
  using assms by (induction s) auto

lemma stable_first_seen:
  assumes sets: "set s = set xs"
    and stable: "filter (\<lambda>r. avg_rank_value r = k) s = filter (\<lambda>r. avg_rank_value r = k) xs"
    and tie: "\<And>r. r \<in> set xs \<Longrightarrow> ArtistName r = a \<or> ArtistName r = b \<Longrightarrow> avg_rank_value r = k"
    and first: "a \<in> image ArtistName (set (takeWhile (\<lambda>r. ArtistName r \<noteq> b) xs))"
    and chosen: "b \<in> image ArtistName (set (head n (drop_duplicates s)))"
  shows "a \<in> image ArtistName (set (head n (drop_duplicates s)))"
proof -
  obtain m where m: "head n (drop_duplicates s) = take m (drop_duplicates s)"
    using head_is_take by blast
  have "a \<in> image ArtistName (set (takeWhile (\<lambda>r. ArtistName r \<noteq> b) (filter (\<lambda>r. avg_rank_value r = k) xs)))"
    using first before_filter[of xs ArtistName a b "\<lambda>r. avg_rank_value r = k"] tie by blast
  then have "a \<in> image ArtistName (set (takeWhile (\<lambda>r. ArtistName r \<noteq> b) (filter (\<lambda>r. avg_rank_value r = k) s)))"
    using stable by simp
  then have "a \<in> image ArtistName (set (takeWhile (\<lambda>r. ArtistName r \<noteq> b) s))"
    using before_filter[of s ArtistName a b "\<lambda>r. avg_rank_value r = k"] tie sets by blast
  then have "a \<in> set (map ArtistName (drop_duplicates_from [] (takeWhile (\<lambda>r. ArtistName r \<noteq> b) s)))"
    unfolding ddf_names by simp
  then have "a \<in> image ArtistName (set (takeWhile (\<lambda>r. ArtistName r \<noteq> b) (drop_duplicates s)))"
    by (simp add: drop_duplicates_def ddf_takeWhile)
  then show ?thesis
    using takeWhile_subset_take[of b ArtistName m "drop_duplicates s"] chosen unfolding m by blast
qed

lemma stable_descending_stable:
  "filter (\<lambda>r. avg_rank_value r = k) (stable_descending xs) = filter (\<lambda>r. avg_rank_value r = k) xs"
  using sort_key_stable[of "\<lambda>r. - avg_rank_value r" "- k" xs]
  by (simp add: stable_descending_def)

lemma sorts_descending_stable: "sorts_descending stable_descending rs"
  using sorted_sort_key[of "\<lambda>r. - avg_rank_value r" rs]
  by (simp add: sorts_descending_def stable_descending_def sorted_map)

lemma ranked_row_eta:
  "\<lparr>ArtistName = ArtistName r, Year = Year r, num_songs = num_songs r,
    avg_popularity = avg_popularity r, rank_value = rank_value r\<rparr> = (r :: ranked_row)"
  by (cases r) simp

lemma filter_truncate:
  "map (\<lambda>r. \<lparr>ArtistName = ArtistName r, Year = Year r, num_songs = num_songs r,
              avg_popularity = avg_popularity r, rank_value = rank_value r\<rparr>)
       (filter (\<lambda>r. ArtistName r \<in> S) (add_avg_rank_value rs)) = filter (\<lambda>r. ArtistName r \<in> S) rs"
  by (simp add: add_avg_rank_value_def filter_map comp_def ranked_row_eta)

lemma get_top_ranked:
  "objs h data = Ranked rs \<Longrightarrow>
   get_top_artists sort_values h data top_n =
     Inr (alloc (assign h data (Averaged (add_avg_rank_value rs)))
           (Averaged (rows_isin (add_avg_rank_value rs)
                        (top_artists sort_values (add_avg_rank_value rs) top_n))))"
  by (simp add: get_top_artists_def Let_def)

lemma objs_alloc: "alloc h f = (h', ref) \<Longrightarrow> objs h' ref = f \<and> ref = fresh h"
  by (auto simp: alloc_def)

lemma objs_store_of: "objs (store_of f) 0 = f" by (simp add: store_of_def)

lemma mset_pair_cases:
  assumes "mset xs = {#x, y#}"
  shows "xs = [x, y] \<or> xs = [y, x]"
proof -
  from assms have "length xs = length [x, y]" by (intro mset_eq_length) simp
  then obtain u v where xs: "xs = [u, v]"
    by (cases xs; cases "tl xs"; cases "tl (tl xs)") auto
  with assms show ?thesis by (auto simp: add_eq_conv_ex)
qed

lemma calc_raw:
  "objs h data = Raw rs \<Longrightarrow> calculate_rank_value h data wx wy =
     (assign h data (Ranked (map (\<lambda>r. \<lparr>ArtistName = ArtistName r, Year = Year r, num_songs = num_songs r,
                                 avg_popularity = avg_popularity r,
                                 rank_value = rank_of wx wy r\<rparr>) rs)), data)"
  by (simp add: calculate_rank_value_def)

lemma objs_assign: "objs (assign h ref f) = (objs h)(ref := f)"
  by (simp add: assign_def)

lemma fresh_assign: "fresh (assign h ref f) = fresh h"
  by (simp add: assign_def)

lemma artist_row_eta:
  "\<lparr>ArtistName = ArtistName r, Year = Year r, num_songs = num_songs r,
    avg_popularity = avg_popularity r\<rparr> = (r :: artist_row)"
  by (cases r) simp

lemma tied_example_averaged:
  "add_avg_rank_value tied_example =
     [\<lparr>ArtistName = ''A'', Year = 2000, num_songs = 10, avg_popularity = 50, rank_value = 30, avg_rank_value = 30\<rparr>,
      \<lparr>ArtistName = ''B'', Year = 2000, num_songs = 10, avg_popularity = 50, rank_value = 30, avg_rank_value = 30\<rparr>,
      \<lparr>ArtistName = ''C'', Year = 2000, num_songs = 10, avg_popularity = 50, rank_value = 30, avg_rank_value = 30\<rparr>]"
  by (simp add: tied_example_def add_avg_rank_value_def group_mean_rank_def mean_def)

lemma ascending_example_averaged:
  "add_avg_rank_value ascending_example =
     [\<lparr>ArtistName = ''A'', Year = 2000, num_songs = 10, avg_popularity = 10, rank_value = 10, avg_rank_value = 10\<rparr>,
      \<lparr>ArtistName = ''B'', Year = 2000, num_songs = 10, avg_popularity = 50, rank_value = 30, avg_rank_value = 30\<rparr>,
      \<lparr>ArtistName = ''C'', Year = 2000, num_songs = 10, avg_popularity = 90, rank_value = 50, avg_rank_value = 50\<rparr>,
      \<lparr>ArtistName = ''D'', Year = 2000, num_songs = 20, avg_popularity = 80, rank_value = 50, avg_rank_value = 50\<rparr>]"
  by (simp add: ascending_example_def add_avg_rank_value_def group_mean_rank_def mean_def)

section \<open>Lemmas about splitting and grouping\<close>

lemma split_genres_nonempty: "split_genres s \<noteq> []"
  by (induction s rule: split_genres.induct) (auto split: list.splits)

lemma split_single: "\<not> has_delim l \<Longrightarrow> split_genres l = [l]"
  by (induction l rule: split_genres.induct) auto

lemma split_append:
  "\<not> has_delim l \<Longrightarrow> split_genres (l @ CHR '','' # CHR '' '' # rest) = l # split_genres rest"
  by (induction l rule: split_genres.induct) auto

lemma split_join:
  "ls \<noteq> [] \<Longrightarrow> \<forall>l\<in>set ls. \<not> has_delim l \<Longrightarrow> split_genres (join_genres ls) = ls"
  by (induction ls rule: join_genres.induct) (auto simp: split_single split_append)

lemma pieces_no_delim: "p \<in> set (split_genres s) \<Longrightarrow> \<not> has_delim p"
proof (induction s arbitrary: p rule: split_genres.induct)
  case 1
  then show ?case by simp
next
  case (2 c)
  then show ?case by simp
next
  case (3 c d cs)
  show ?case
  proof (cases "c = CHR '','' \<and> d = CHR '' ''")
    case True
    with 3 show ?thesis by auto
  next
    case False
    obtain q qs where q: "split_genres (d # cs) = q # qs"
      using split_genres_nonempty[of "d # cs"] by (cases "split_genres (d # cs)") auto
    have nq: "\<not> has_delim q" using 3(2)[OF False, of q] q by simp
    have hd: "q = [] \<or> hd q = d"
      using q by (cases "cs") (auto split: if_splits list.splits)
    from 3(3) False q have "p = c # q \<or> p \<in> set qs" by auto
    then show ?thesis
    proof
      assume "p = c # q"
      then show ?thesis using nq hd False
        by (cases q) auto
    next
      assume "p \<in> set qs"
      then show ?thesis using 3(2)[OF False, of p] q by simp
    qed
  qed
qed

lemma join_split: "join_genres (split_genres s) = s"
proof (induction s rule: split_genres.induct)
  case 1
  then show ?case by simp
next
  case (2 c)
  then show ?case by simp
next
  case (3 c d cs)
  show ?case
  proof (cases "c = CHR '','' \<and> d = CHR '' ''")
    case True
    with 3(1) show ?thesis
      using split_genres_nonempty[of cs] by (cases "split_genres cs") auto
  next
    case False
    obtain q qs where q: "split_genres (d # cs) = q # qs"
      using split_genres_nonempty[of "d # cs"] by (cases "split_genres (d # cs)") auto
    from 3(2)[OF False] q have "join_genres (q # qs) = d # cs" by simp
    then have "join_genres ((c # q) # qs) = c # d # cs" by (cases qs) auto
    moreover have "split_genres (c # d # cs) = (c # q) # qs" using False q by auto
    ultimately show ?thesis by simp
  qed
qed

lemma has_delim_iff: "has_delim s \<longleftrightarrow> (\<exists>p q. s = p @ '', '' @ q)"
proof
  assume "has_delim s"
  then show "\<exists>p q. s = p @ '', '' @ q"
  proof (induction s rule: has_delim.induct)
    case (3 c d cs)
    show ?case
    proof (cases "c = CHR '','' \<and> d = CHR '' ''")
      case True
      then have "c # d # cs = [] @ '', '' @ cs" by simp
      then show ?thesis by blast
    next
      case False
      with 3 obtain p q where "d # cs = p @ '', '' @ q" by auto
      then have "c # d # cs = (c # p) @ '', '' @ q" by simp
      then show ?thesis by blast
    qed
  qed simp_all
next
  assume "\<exists>p q. s = p @ '', '' @ q"
  then obtain p q where s: "s = p @ '', '' @ q" by blast
  have "has_delim (p @ '', '' @ q)"
    by (induction p rule: has_delim.induct) auto
  with s show "has_delim s" by simp
qed

lemma expand_rows_null:
  "\<exists>r\<in>set data. Genre r = None \<Longrightarrow> expand_rows data = Inl AttributeError"
proof (induction data)
  case Nil
  then show ?case by simp
next
  case (Cons row data)
  show ?case
  proof (cases "Genre row")
    case None
    then show ?thesis by simp
  next
    case (Some g)
    with Cons.prems have "\<exists>r\<in>set data. Genre r = None" by auto
    with Cons.IH Some show ?thesis by simp
  qed
qed

lemma expand_rows_ok:
  "\<forall>r\<in>set data. Genre r \<noteq> None \<Longrightarrow>
   expand_rows data =
     Inr (concat (map (\<lambda>row. label_rows row (split_genres (the (Genre row)))) data))"
  by (induction data) (auto simp: label_rows_def)

lemma expanded_labels:
  "List.map_filter Genre (concat (map (\<lambda>row. label_rows row (split_genres (the (Genre row)))) data))
     = concat (map (\<lambda>row. split_genres (the (Genre row))) data)"
  by (induction data) (simp_all add: List.map_filter_def label_rows_def comp_def)

lemma expanded_nonempty:
  "data \<noteq> [] \<Longrightarrow> concat (map (\<lambda>row. label_rows row (split_genres (the (Genre row)))) data) \<noteq> []"
  using split_genres_nonempty by (cases data) (auto simp: label_rows_def)

lemma group_keys_set: "set (group_keys rows) = {k. \<exists>r\<in>set rows. Genre r = Some k}"
  by (force simp: group_keys_def List.map_filter_def)

lemma group_keys_distinct: "distinct (group_keys rows)"
  by (simp add: group_keys_def)

lemma group_keys_sorted: "sorted (group_keys rows)"
  by (simp add: group_keys_def)

lemma filter_unique:
  "distinct (map f xs) \<Longrightarrow> r \<in> set xs \<Longrightarrow> filter (\<lambda>x. f x = f r) xs = [r]"
proof (induction xs)
  case Nil
  then show ?case by simp
next
  case (Cons x xs)
  show ?case
  proof (cases "x = r")
    case True
    have "f r \<notin> set (map f xs)" using Cons.prems(1) True by simp
    then have "\<forall>y\<in>set xs. f y \<noteq> f r" by (metis image_eqI set_map)
    then have "filter (\<lambda>x. f x = f r) xs = []" by (simp add: filter_empty_conv)
    with True show ?thesis by simp
  next
    case False
    with Cons.prems have "r \<in> set xs" "f x \<noteq> f r" by auto
    with Cons show ?thesis by simp
  qed
qed

lemma group_rows_unique:
  assumes "distinct (map Genre rows)" "r \<in> set rows" "Genre r = Some k"
  shows "group_rows rows k = [r]"
  using filter_unique[OF assms(1,2)] assms(3) by (simp add: group_rows_def)

lemma artist_genre_row_eta:
  "Genre r = Some k \<Longrightarrow>
   \<lparr>Genre = Some k, avg_popularity_artist = avg_popularity_artist r,
     avg_popularity_overall = avg_popularity_overall r\<rparr> = (r :: artist_genre_row)"
  by (cases r) simp

lemma groupby_mean_distinct:
  assumes nonnull: "\<forall>r\<in>set rows. Genre r \<noteq> None" and dist: "distinct (map Genre rows)"
  shows "mset (groupby_mean rows) = mset rows"
proof -
  let ?F = "\<lambda>k. \<lparr>Genre = Some k,
               avg_popularity_artist = mean (map avg_popularity_artist (group_rows rows k)),
               avg_popularity_overall = mean (map avg_popularity_overall (group_rows rows k))\<rparr>"
  let ?ks = "List.map_filter Genre rows"
  have ks: "?ks = map (\<lambda>r. the (Genre r)) rows"
    using nonnull by (induction rows) (auto simp: List.map_filter_def)
  have "inj_on the (set (map Genre rows))"
    using nonnull by (auto simp: inj_on_def) (metis option.sel)
  then have "distinct (map the (map Genre rows))"
    using dist by (simp add: distinct_map del: map_map)
  then have "distinct ?ks" by (simp add: ks comp_def)
  then have keys: "mset (group_keys rows) = mset ?ks"
    by (simp add: group_keys_def distinct_remdups_id)
  have F: "?F (the (Genre r)) = r" if "r \<in> set rows" for r
  proof -
    from that nonnull obtain k where k: "Genre r = Some k" by auto
    with group_rows_unique[OF dist that k] show ?thesis
      by (simp add: mean_single artist_genre_row_eta)
  qed
  have "mset (groupby_mean rows) = image_mset ?F (mset (group_keys rows))"
    by (simp add: groupby_mean_def)
  also have "\<dots> = image_mset ?F (mset ?ks)" by (simp only: keys)
  also have "\<dots> = mset (map ?F ?ks)" by simp
  also have "\<dots> = mset (map (\<lambda>r. ?F (the (Genre r))) rows)" unfolding ks by (simp add: comp_def)
  also have "map (\<lambda>r. ?F (the (Genre r))) rows = rows" using F by (simp add: map_idI)
  finally show ?thesis .
qed

lemma map_filter_nonnull:
  "\<forall>r\<in>set rows. Genre r \<noteq> None \<Longrightarrow> List.map_filter Genre rows = map (\<lambda>r. the (Genre r)) rows"
  by (induction rows) (auto simp: List.map_filter_def)

lemma distinct_labels:
  assumes "\<forall>r\<in>set rows. Genre r \<noteq> None"
  shows "distinct (map (\<lambda>r. the (Genre r)) rows) = distinct (map Genre rows)"
proof -
  have "inj_on the (set (map Genre rows))"
    using assms by (auto simp: inj_on_def) (metis option.sel)
  then have "distinct (map the (map Genre rows)) = distinct (map Genre rows)"
    by (simp add: distinct_map del: map_map)
  then show ?thesis by (simp add: comp_def)
qed

lemma groupby_mean_sorted:
  assumes nonnull: "\<forall>r\<in>set rows. Genre r \<noteq> None"
    and dist: "distinct (map Genre rows)"
    and srt: "sorted (map (\<lambda>r. the (Genre r)) rows)"
  shows "groupby_mean rows = rows"
proof -
  let ?F = "\<lambda>k. \<lparr>Genre = Some k,
               avg_popularity_artist = mean (map avg_popularity_artist (group_rows rows k)),
               avg_popularity_overall = mean (map avg_popularity_overall (group_rows rows k))\<rparr>"
  let ?ks = "map (\<lambda>r. the (Genre r)) rows"
  have "distinct ?ks" using dist distinct_labels[OF nonnull] by simp
  then have keys: "group_keys rows = ?ks"
    using srt by (simp add: group_keys_def map_filter_nonnull[OF nonnull] distinct_remdups_id sorted_sort_id)
  have F: "?F (the (Genre r)) = r" if "r \<in> set rows" for r
  proof -
    from that nonnull obtain k where k: "Genre r = Some k" by auto
    with group_rows_unique[OF dist that k] show ?thesis
      by (simp add: mean_single artist_genre_row_eta)
  qed
  have "groupby_mean rows = map ?F ?ks" by (simp add: groupby_mean_def keys)
  also have "\<dots> = map (\<lambda>r. ?F (the (Genre r))) rows" by (simp add: comp_def)
  also have "\<dots> = rows" using F by (simp add: map_idI)
  finally show ?thesis .
qed

lemma groupby_mean_genres: "map Genre (groupby_mean rows) = map Some (group_keys rows)"
  by (simp add: groupby_mean_def comp_def)

lemma expanded_rows_delim:
  assumes "r \<in> set (concat (map (\<lambda>row. label_rows row (split_genres (the (Genre row)))) data))"
  shows "\<exists>k. Genre r = Some k \<and> \<not> has_delim k"
  using assms pieces_no_delim by (auto simp: label_rows_def)

lemma expand_single_labels:
  assumes "\<forall>r\<in>set data. \<exists>g. Genre r = Some g \<and> \<not> has_delim g"
  shows "expand_rows data = Inr data"
  using assms
proof (induction data)
  case Nil
  then show ?case by simp
next
  case (Cons row data)
  then obtain g where g: "Genre row = Some g" "\<not> has_delim g" by auto
  then have "label_rows row (split_genres g) = [row]"
    by (simp add: split_single label_rows_def artist_genre_row_eta)
  with Cons g show ?case by simp
qed

lemma split_and_aggregate_idem:
  assumes "split_and_aggregate data = Inr out"
  shows "split_and_aggregate out = Inr out"
proof -
  let ?rows = "concat (map (\<lambda>row. label_rows row (split_genres (the (Genre row)))) data)"
  have nonnull: "\<forall>r\<in>set data. Genre r \<noteq> None"
  proof (rule ccontr)
    assume "\<not> (\<forall>r\<in>set data. Genre r \<noteq> None)"
    then have "\<exists>r\<in>set data. Genre r = None" by simp
    then have "expand_rows data = Inl AttributeError" by (rule expand_rows_null)
    with assms show False by (simp add: split_and_aggregate_def)
  qed
  then have ex: "expand_rows data = Inr ?rows" by (rule expand_rows_ok)
  with assms have ne: "?rows \<noteq> []" and out: "out = groupby_mean ?rows"
    by (auto simp: split_and_aggregate_def split: if_splits)
  have keys: "\<forall>k\<in>set (group_keys ?rows). \<not> has_delim k"
    unfolding group_keys_set using expanded_rows_delim[of _ data] by fastforce
  have genres: "map Genre out = map Some (group_keys ?rows)"
    unfolding out by (rule groupby_mean_genres)
  have labels: "map (\<lambda>r. the (Genre r)) out = group_keys ?rows"
  proof -
    have "map (\<lambda>r. the (Genre r)) out = map the (map Genre out)" by (simp add: comp_def)
    also have "\<dots> = group_keys ?rows" unfolding genres by (simp add: comp_def)
    finally show ?thesis .
  qed
  have single: "\<forall>r\<in>set out. \<exists>g. Genre r = Some g \<and> \<not> has_delim g"
  proof
    fix r assume "r \<in> set out"
    then have "Genre r \<in> set (map Some (group_keys ?rows))" unfolding genres[symmetric] by simp
    then show "\<exists>g. Genre r = Some g \<and> \<not> has_delim g" using keys by auto
  qed
  then have nonnull_out: "\<forall>r\<in>set out. Genre r \<noteq> None" by auto
  have dist: "distinct (map Genre out)"
    unfolding genres by (simp add: distinct_map group_keys_distinct)
  have srt: "sorted (map (\<lambda>r. the (Genre r)) out)"
    unfolding labels by (rule group_keys_sorted)
  obtain r0 where "r0 \<in> set ?rows" using ne by (cases ?rows) auto
  then obtain k0 where "Genre r0 = Some k0" using expanded_rows_delim[of r0 data] by blast
  with \<open>r0 \<in> set ?rows\<close> have "k0 \<in> set (group_keys ?rows)" unfolding group_keys_set by blast
  then have "out \<noteq> []" using labels by auto
  then show ?thesis
    using expand_single_labels[OF single] groupby_mean_sorted[OF nonnull_out dist srt]
    by (simp add: split_and_aggregate_def)
qed

lemma label_rows_sums:
  "sum_list (map avg_popularity_artist (label_rows row ls)) = of_nat (length ls) * avg_popularity_artist row"
  "sum_list (map avg_popularity_overall (label_rows row ls)) = of_nat (length ls) * avg_popularity_overall row"
  by (induction ls) (simp_all add: label_rows_def algebra_simps)

lemma label_rows_length: "length (label_rows row ls) = length ls"
  by (simp add: label_rows_def)

lemma expanded_sums:
  assumes "\<forall>r\<in>set data. length (split_genres (the (Genre r))) = n"
  shows "sum_list (map avg_popularity_artist
            (concat (map (\<lambda>row. label_rows row (split_genres (the (Genre row)))) data)))
           = of_nat n * sum_list (map avg_popularity_artist data)"
    and "sum_list (map avg_popularity_overall
            (concat (map (\<lambda>row. label_rows row (split_genres (the (Genre row)))) data)))
           = of_nat n * sum_list (map avg_popularity_overall data)"
    and "length (concat (map (\<lambda>row. label_rows row (split_genres (the (Genre row)))) data))
           = n * length data"
  using assms by (induction data) (simp_all add: label_rows_sums label_rows_length algebra_simps)

lemma mean_scaled:
  assumes "0 < n"
  shows "(of_nat n * s) / of_nat (n * k) = (s :: rat) / of_nat k"
  using assms by simp

lemma groupby_mean_values:
  "r \<in> set (groupby_mean rows) \<Longrightarrow>
     avg_popularity_artist r = mean (map avg_popularity_artist (filter (\<lambda>x. Genre x = Genre r) rows)) \<and>
     avg_popularity_overall r = mean (map avg_popularity_overall (filter (\<lambda>x. Genre x = Genre r) rows))"
  by (auto simp: groupby_mean_def group_rows_def)

lemma groupby_agg_values:
  "r \<in> set (groupby_agg rows) \<Longrightarrow>
       AvgDanceability r = mean (map AvgDanceability (filter (\<lambda>x. Genre x = Genre r) rows)) \<and>
       AvgDuration r = mean (map AvgDuration (filter (\<lambda>x. Genre x = Genre r) rows)) \<and>
       AvgPopularity r = mean (map AvgPopularity (filter (\<lambda>x. Genre x = Genre r) rows)) \<and>
       TotalSongs r = sum_list (map TotalSongs (filter (\<lambda>x. Genre x = Genre r) rows))"
  by (auto simp: groupby_agg_def group_rows_def)

lemma split_and_aggregate_null:
  "\<exists>r\<in>set data. Genre r = None \<Longrightarrow> split_and_aggregate data = Inl AttributeError"
  by (simp add: split_and_aggregate_def expand_rows_null)

lemma summary_row_update:
  "(row :: summary_row)\<lparr>Genre := Some l\<rparr> =
     \<lparr>Genre = Some l, AvgDanceability = AvgDanceability row, AvgDuration = AvgDuration row,
      AvgPopularity = AvgPopularity row, TotalSongs = TotalSongs row\<rparr>"
  by (cases row) simp

lemma groupby_agg_genres: "map Genre (groupby_agg rows) = map Some (group_keys rows)"
  by (simp add: groupby_agg_def comp_def)

lemma some_keys_set: "set (map Some (group_keys rows)) = set (map Genre rows) - {None}"
proof (rule set_eqI)
  fix x
  show "x \<in> set (map Some (group_keys rows)) \<longleftrightarrow> x \<in> set (map Genre rows) - {None}"
  proof (cases x)
    case None
    then show ?thesis by auto
  next
    case (Some k)
    have "k \<in> set (group_keys rows) \<longleftrightarrow> Some k \<in> set (map Genre rows)"
      unfolding group_keys_set by force
    with Some show ?thesis by auto
  qed
qed

lemma Diff_triv_none: "None \<notin> A \<Longrightarrow> A - {None} = A"
  by blast

lemma expanded_nonnull:
  "\<forall>r\<in>set (concat (map (\<lambda>row. label_rows row (split_genres (the (Genre row)))) data)). Genre r \<noteq> None"
  by (auto simp: label_rows_def)

lemma contract_split:
  "ls \<noteq> [] \<and> (\<forall>l\<in>set ls. \<not> has_delim l) \<longrightarrow> split_genres (join_genres ls) = ls"
  by (simp add: split_join)

lemma contract_expand:
  "(\<forall>r\<in>set data. Genre r \<noteq> None) \<longrightarrow>
      expand_rows data =
        Inr (concat (map (\<lambda>row. map (\<lambda>l. \<lparr>Genre = Some l,
                                             avg_popularity_artist = avg_popularity_artist row,
                                             avg_popularity_overall = avg_popularity_overall row\<rparr>)
                                    (split_genres (the (Genre row)))) data))"
proof
  assume "\<forall>r\<in>set data. Genre r \<noteq> None"
  then have "expand_rows data =
     Inr (concat (map (\<lambda>row. label_rows row (split_genres (the (Genre row)))) data))"
    by (rule expand_rows_ok)
  then show "expand_rows data =
        Inr (concat (map (\<lambda>row. map (\<lambda>l. \<lparr>Genre = Some l,
                                             avg_popularity_artist = avg_popularity_artist row,
                                             avg_popularity_overall = avg_popularity_overall row\<rparr>)
                                    (split_genres (the (Genre row)))) data))"
    unfolding label_rows_def .
qed

lemma contract_explode:
  "Genre row = Some g \<longrightarrow>
      explode (row # df) =
        map (\<lambda>l. \<lparr>Genre = Some l, AvgDanceability = AvgDanceability row, AvgDuration = AvgDuration row,
                   AvgPopularity = AvgPopularity row, TotalSongs = TotalSongs row\<rparr>) (split_genres g)
        @ explode df"
  by (simp add: explode_def summary_row_update)

lemma contract_aggregate:
  "split_and_aggregate data = Inr out \<longrightarrow>
      (\<exists>rows. expand_rows data = Inr rows \<and>
         distinct (map Genre out) \<and> set (map Genre out) = set (map Genre rows) \<and>
         (\<forall>r\<in>set out.
            avg_popularity_artist r =
              mean (map avg_popularity_artist (filter (\<lambda>x. Genre x = Genre r) rows)) \<and>
            avg_popularity_overall r =
              mean (map avg_popularity_overall (filter (\<lambda>x. Genre x = Genre r) rows))))"
proof
  assume call: "split_and_aggregate data = Inr out"
  define rows where "rows = concat (map (\<lambda>row. label_rows row (split_genres (the (Genre row)))) data)"
  have nonnull: "\<forall>r\<in>set data. Genre r \<noteq> None"
  proof (rule ccontr)
    assume "\<not> (\<forall>r\<in>set data. Genre r \<noteq> None)"
    then have "\<exists>r\<in>set data. Genre r = None" by simp
    then have "split_and_aggregate data = Inl AttributeError" by (rule split_and_aggregate_null)
    with call show False by simp
  qed
  then have ex: "expand_rows data = Inr rows" unfolding rows_def by (rule expand_rows_ok)
  with call have out: "out = groupby_mean rows"
    by (simp add: split_and_aggregate_def split: if_splits)
  have rows_nonnull: "\<forall>r\<in>set rows. Genre r \<noteq> None"
    unfolding rows_def by (rule expanded_nonnull)
  have genres: "map Genre out = map Some (group_keys rows)"
    unfolding out by (rule groupby_mean_genres)
  have d: "distinct (map Genre out)"
    unfolding genres by (simp add: distinct_map group_keys_distinct)
  have "None \<notin> set (map Genre rows)"
  proof
    assume "None \<in> set (map Genre rows)"
    then obtain r where "r \<in> set rows" "Genre r = None" by auto
    with rows_nonnull show False by blast
  qed
  then have "set (map Genre rows) - {None} = set (map Genre rows)"
    by (rule Diff_triv_none)
  then have s: "set (map Genre out) = set (map Genre rows)"
    unfolding genres some_keys_set by simp
  have m: "\<forall>r\<in>set out.
            avg_popularity_artist r =
              mean (map avg_popularity_artist (filter (\<lambda>x. Genre x = Genre r) rows)) \<and>
            avg_popularity_overall r =
              mean (map avg_popularity_overall (filter (\<lambda>x. Genre x = Genre r) rows))"
    unfolding out using groupby_mean_values by blast
  show "\<exists>rows. expand_rows data = Inr rows \<and>
         distinct (map Genre out) \<and> set (map Genre out) = set (map Genre rows) \<and>
         (\<forall>r\<in>set out.
            avg_popularity_artist r =
              mean (map avg_popularity_artist (filter (\<lambda>x. Genre x = Genre r) rows)) \<and>
            avg_popularity_overall r =
              mean (map avg_popularity_overall (filter (\<lambda>x. Genre x = Genre r) rows)))"
    by (rule exI[of _ rows]) (intro conjI ex d s m)
qed

lemma contract_agg_distinct: "distinct (map Genre (groupby_agg (explode df)))"
  unfolding groupby_agg_genres by (simp add: distinct_map group_keys_distinct)

lemma contract_agg_keys:
  "set (map Genre (groupby_agg (explode df))) = set (map Genre (explode df)) - {None}"
  unfolding groupby_agg_genres by (rule some_keys_set)

lemma contract_agg_values:
  "\<forall>r\<in>set (groupby_agg (explode df)).
       AvgDanceability r = mean (map AvgDanceability (filter (\<lambda>x. Genre x = Genre r) (explode df))) \<and>
       AvgDuration r = mean (map AvgDuration (filter (\<lambda>x. Genre x = Genre r) (explode df))) \<and>
       AvgPopularity r = mean (map AvgPopularity (filter (\<lambda>x. Genre x = Genre r) (explode df))) \<and>
       TotalSongs r = sum_list (map TotalSongs (filter (\<lambda>x. Genre x = Genre r) (explode df)))"
  using groupby_agg_values by blast

lemma genre_example_expand:
  "expand_rows [\<lparr>Genre = Some ''Pop, Rock'', avg_popularity_artist = 80, avg_popularity_overall = 80\<rparr>] =
     Inr [\<lparr>Genre = Some ''Pop'', avg_popularity_artist = 80, avg_popularity_overall = 80\<rparr>,
          \<lparr>Genre = Some ''Rock'', avg_popularity_artist = 80, avg_popularity_overall = 80\<rparr>]"
  by (simp add: label_rows_def)

lemma genre_example_aggregate: "split_and_aggregate genre_example = Inr genre_example_out"
  by (simp add: genre_example_def genre_example_out_def split_and_aggregate_def groupby_mean_def
        group_keys_def group_rows_def mean_def List.map_filter_def label_rows_def)

lemma summary_example_aggregate:
  "groupby_agg (explode summary_example) =
     [\<lparr>Genre = Some ''Pop'', AvgDanceability = 3 / 8, AvgDuration = 150, AvgPopularity = 70, TotalSongs = 5\<rparr>,
      \<lparr>Genre = Some ''Rock'', AvgDanceability = 1 / 2, AvgDuration = 200, AvgPopularity = 80, TotalSongs = 3\<rparr>]"
  by (simp add: summary_example_def explode_def groupby_agg_def group_keys_def group_rows_def
        mean_def List.map_filter_def)

lemma groupby_mean_labels: "map (\<lambda>r. the (Genre r)) (groupby_mean rows) = group_keys rows"
  by (simp add: groupby_mean_def comp_def)

lemma sum_list_delta_absent:
  fixes c :: rat
  shows "k0 \<notin> set ks \<Longrightarrow> sum_list (map (\<lambda>k. if k = k0 then c else 0) ks) = 0"
  by (induction ks) auto

lemma sum_list_delta:
  fixes c :: rat
  assumes "distinct ks" "k0 \<in> set ks"
  shows "sum_list (map (\<lambda>k. if k = k0 then c else 0) ks) = c"
  using assms by (induction ks) (auto simp: sum_list_delta_absent)

lemma sum_list_zero_map: "sum_list (map (\<lambda>k. 0 :: rat) ks) = 0"
  by (induction ks) auto

lemma group_sums_partition:
  fixes f :: "'a genre_keyed_scheme \<Rightarrow> rat"
  assumes "distinct ks" "\<forall>r\<in>set rows. \<exists>k\<in>set ks. Genre r = Some k"
  shows "sum_list (map (\<lambda>k. sum_list (map f (filter (\<lambda>r. Genre r = Some k) rows))) ks)
           = sum_list (map f rows)"
  using assms(2)
proof (induction rows)
  case Nil
  then show ?case by (simp add: sum_list_zero_map)
next
  case (Cons r rows)
  then obtain k0 where k0: "k0 \<in> set ks" "Genre r = Some k0" by auto
  have "sum_list (map (\<lambda>k. sum_list (map f (filter (\<lambda>r. Genre r = Some k) (r # rows)))) ks)
        = sum_list (map (\<lambda>k. (if k = k0 then f r else 0)
                     + sum_list (map f (filter (\<lambda>r. Genre r = Some k) rows))) ks)"
    using k0(2) by (intro arg_cong[where f=sum_list] map_cong) auto
  also have "\<dots> = sum_list (map (\<lambda>k. if k = k0 then f r else 0) ks)
        + sum_list (map (\<lambda>k. sum_list (map f (filter (\<lambda>r. Genre r = Some k) rows))) ks)"
    by (simp add: sum_list_addf)
  also have "\<dots> = f r + sum_list (map f rows)"
    using sum_list_delta[OF assms(1) k0(1)] Cons by simp
  finally show ?case by simp
qed

lemma group_keys_cover:
  assumes "\<forall>r\<in>set rows. Genre r \<noteq> None"
  shows "\<forall>r\<in>set rows. \<exists>k\<in>set (group_keys rows). Genre r = Some k"
proof
  fix r assume r: "r \<in> set rows"
  with assms obtain k where k: "Genre r = Some k" by auto
  with r have "k \<in> set (group_keys rows)" unfolding group_keys_set by blast
  with k show "\<exists>k\<in>set (group_keys rows). Genre r = Some k" by blast
qed

lemma groups_partition:
  fixes f :: "'a genre_keyed_scheme \<Rightarrow> rat"
  assumes "\<forall>r\<in>set rows. Genre r \<noteq> None"
  shows "sum_list (map (\<lambda>k. sum_list (map f (group_rows rows k))) (group_keys rows)) = sum_list (map f rows)"
  unfolding group_rows_def
  by (rule group_sums_partition[OF group_keys_distinct group_keys_cover[OF assms]])

lemma groups_partition_length:
  assumes "\<forall>r\<in>set rows. Genre r \<noteq> None"
  shows "sum_list (map (\<lambda>k. of_nat (length (group_rows rows k)) :: rat) (group_keys rows))
           = of_nat (length rows)"
  using groups_partition[OF assms, of "\<lambda>_. 1"] by (simp add: sum_list_triv)

lemma length_times_mean: "of_nat (length xs) * mean xs = sum_list xs"
  by (cases xs) (simp_all add: mean_def)

lemma mean_constant: "xs \<noteq> [] \<Longrightarrow> \<forall>x\<in>set xs. x = c \<Longrightarrow> mean xs = c"
proof -
  assume ne: "xs \<noteq> []" and c: "\<forall>x\<in>set xs. x = c"
  have "sum_list xs = of_nat (length xs) * c" using c by (induction xs) (auto simp: algebra_simps)
  then show ?thesis using ne by (simp add: mean_def)
qed

lemma group_rows_nonempty: "k \<in> set (group_keys rows) \<Longrightarrow> group_rows rows k \<noteq> []"
  unfolding group_keys_set group_rows_def by (auto simp: filter_empty_conv)

lemma groupby_mean_metric:
  assumes "metric = avg_popularity_artist \<or> metric = avg_popularity_overall"
  shows "map metric (groupby_mean rows) = map (\<lambda>k. mean (map metric (group_rows rows k))) (group_keys rows)"
  using assms by (auto simp: groupby_mean_def comp_def)

lemma groupby_mean_sizes:
  "map (\<lambda>r. length (filter (\<lambda>x. Genre x = Genre r) rows)) (groupby_mean rows)
     = map (\<lambda>k. length (group_rows rows k)) (group_keys rows)"
  by (simp add: groupby_mean_def comp_def group_rows_def)

lemma groupby_mean_weighted:
  assumes metric: "metric = avg_popularity_artist \<or> metric = avg_popularity_overall"
    and nonnull: "\<forall>r\<in>set rows. Genre r \<noteq> None"
  shows "sum_list (map (\<lambda>r. of_nat (length (filter (\<lambda>x. Genre x = Genre r) rows)) * metric r)
                     (groupby_mean rows)) = sum_list (map metric rows)"
proof -
  have "map (\<lambda>r. of_nat (length (filter (\<lambda>x. Genre x = Genre r) rows)) * metric r) (groupby_mean rows)
        = map (\<lambda>k. of_nat (length (map metric (group_rows rows k))) * mean (map metric (group_rows rows k)))
              (group_keys rows)"
    using metric by (auto simp: groupby_mean_def comp_def group_rows_def)
  also have "\<dots> = map (\<lambda>k. sum_list (map metric (group_rows rows k))) (group_keys rows)"
    by (simp only: length_times_mean)
  finally show ?thesis by (simp only: groups_partition[OF nonnull])
qed

lemma expanded_copies:
  assumes "metric = avg_popularity_artist \<or> metric = avg_popularity_overall"
  shows "sum_list (map metric (concat (map (\<lambda>row. label_rows row (split_genres (the (Genre row)))) data)))
         = sum_list (map (\<lambda>r. of_nat (length (split_genres (the (Genre r)))) * metric r) data)"
  using assms by (induction data) (auto simp: label_rows_sums)

lemma sum_list_divide_const:
  fixes c :: rat
  shows "sum_list (map (\<lambda>k. f k / c) ks) = sum_list (map f ks) / c"
  by (induction ks) (simp_all add: add_divide_distrib)

lemma equal_groups_average:
  assumes metric: "metric = avg_popularity_artist \<or> metric = avg_popularity_overall"
    and nonnull: "\<forall>r\<in>set rows. Genre r \<noteq> None"
    and ne: "rows \<noteq> []"
    and sizes: "\<forall>k\<in>set (group_keys rows). length (group_rows rows k) = m"
  shows "overall_average metric (groupby_mean rows) = overall_average metric rows"
proof -
  let ?ks = "group_keys rows"
  obtain r0 where r0: "r0 \<in> set rows" using ne by (cases rows) auto
  with group_keys_cover[OF nonnull] obtain k0 where k0: "k0 \<in> set ?ks" by blast
  with sizes group_rows_nonempty[OF k0] have m: "0 < m" by (cases m) auto
  have "map (\<lambda>k. mean (map metric (group_rows rows k))) ?ks
        = map (\<lambda>k. sum_list (map metric (group_rows rows k)) / of_nat m) ?ks"
    using sizes by (intro map_cong) (auto simp: mean_def)
  then have "sum_list (map metric (groupby_mean rows))
        = sum_list (map (\<lambda>k. sum_list (map metric (group_rows rows k)) / of_nat m) ?ks)"
    by (simp only: groupby_mean_metric[OF metric])
  also have "\<dots> = sum_list (map metric rows) / of_nat m"
    by (simp only: sum_list_divide_const groups_partition[OF nonnull])
  finally have sum: "sum_list (map metric (groupby_mean rows)) = sum_list (map metric rows) / of_nat m" .
  have eq: "map (\<lambda>k. of_nat (length (group_rows rows k)) :: rat) ?ks = map (\<lambda>k. of_nat m) ?ks"
    using sizes by (intro map_cong) auto
  have "(of_nat (length rows) :: rat) = sum_list (map (\<lambda>k. of_nat (length (group_rows rows k))) ?ks)"
    by (simp only: groups_partition_length[OF nonnull])
  also have "\<dots> = sum_list (map (\<lambda>k. of_nat m) ?ks)" by (simp only: eq)
  also have "\<dots> = of_nat (length ?ks) * of_nat m" by (simp add: sum_list_triv)
  finally have len: "(of_nat (length rows) :: rat) = of_nat (length ?ks) * of_nat m" .
  have "length (groupby_mean rows) = length ?ks" by (simp add: groupby_mean_def)
  then show ?thesis
    using sum len m by (simp add: overall_average_def mean_def)
qed

lemma equal_labels_average:
  assumes metric: "metric = avg_popularity_artist \<or> metric = avg_popularity_overall"
    and ne: "data \<noteq> []"
    and lens: "\<forall>r\<in>set data. length (split_genres (the (Genre r))) = n"
  shows "overall_average metric (concat (map (\<lambda>row. label_rows row (split_genres (the (Genre row)))) data))
           = overall_average metric data"
proof -
  obtain r0 where "r0 \<in> set data" using ne by (cases data) auto
  with lens split_genres_nonempty[of "the (Genre r0)"] have n: "0 < n" by (cases n) auto
  show ?thesis
    using metric expanded_sums[OF lens] mean_scaled[OF n]
    by (auto simp: overall_average_def mean_def)
qed

lemma constant_average:
  assumes metric: "metric = avg_popularity_artist \<or> metric = avg_popularity_overall"
    and nonnull: "\<forall>r\<in>set rows. Genre r \<noteq> None"
    and ne: "rows \<noteq> []"
    and const: "\<forall>r\<in>set rows. metric r = c"
  shows "overall_average metric (groupby_mean rows) = c"
proof -
  let ?ks = "group_keys rows"
  obtain r0 where r0: "r0 \<in> set rows" using ne by (cases rows) auto
  with group_keys_cover[OF nonnull] obtain k0 where k0: "k0 \<in> set ?ks" by blast
  have each: "mean (map metric (group_rows rows k)) = c" if "k \<in> set ?ks" for k
  proof (rule mean_constant)
    show "map metric (group_rows rows k) \<noteq> []" using group_rows_nonempty[OF that] by simp
    show "\<forall>x\<in>set (map metric (group_rows rows k)). x = c"
      using const by (auto simp: group_rows_def)
  qed
  have "map metric (groupby_mean rows) = map (\<lambda>k. c) ?ks"
    unfolding groupby_mean_metric[OF metric] using each by (intro map_cong) auto
  moreover have "mean (map (\<lambda>k. c) ?ks) = c"
    using k0 by (intro mean_constant) auto
  ultimately show ?thesis by (simp add: overall_average_def)
qed

lemma expanded_constant:
  assumes metric: "metric = avg_popularity_artist \<or> metric = avg_popularity_overall"
    and const: "\<forall>r\<in>set data. metric r = c"
  shows "\<forall>r\<in>set (concat (map (\<lambda>row. label_rows row (split_genres (the (Genre row)))) data)). metric r = c"
  using assms by (auto simp: label_rows_def)

lemma balanced_example_expand:
  "expand_rows balanced_example =
     Inr [\<lparr>Genre = Some ''Pop'', avg_popularity_artist = 80, avg_popularity_overall = 90\<rparr>,
          \<lparr>Genre = Some ''Rock'', avg_popularity_artist = 80, avg_popularity_overall = 90\<rparr>,
          \<lparr>Genre = Some ''Rock'', avg_popularity_artist = 60, avg_popularity_overall = 70\<rparr>,
          \<lparr>Genre = Some ''Pop'', avg_popularity_artist = 60, avg_popularity_overall = 70\<rparr>]"
  by (simp add: balanced_example_def label_rows_def)

lemma balanced_example_aggregate: "split_and_aggregate balanced_example = Inr balanced_example_out"
  unfolding split_and_aggregate_def balanced_example_expand
  by (simp add: balanced_example_out_def groupby_mean_def group_keys_def group_rows_def mean_def
        List.map_filter_def)

section \<open>Properties\<close>

text \<open>
  C7. For all integer inputs, \<open>validate_years start end\<close> is true exactly when
  \<open>1998 \<le> start \<le> end \<le> 2020\<close>.
\<close>

theorem validate_years_iff:
  "validate_years start_year end_year = (1998 \<le> start_year \<and> start_year \<le> end_year \<and> end_year \<le> 2020)"
  by (auto simp: validate_years_def)

text \<open>
  C2. On a frame with rank values, \<open>get_top_artists\<close> gives every row the mean of the
  rank values of its artist over all rows of the frame; with a sort that returns the rows
  in descending order of that mean and a count \<open>top_n \<ge> 0\<close>, the chosen artists are
  distinct, their number is the smaller of \<open>top_n\<close> and the number of artists in the
  frame (so all of them when there are at most \<open>top_n\<close>), no artist left out has a higher
  mean than a chosen one, and the returned frame holds exactly the rows of the input, of
  every year, whose artist was chosen.
\<close>

theorem get_top_artists_selection:
  assumes ranked: "objs h data = Ranked rs"
    and srt: "sorts_descending sort_values (add_avg_rank_value rs)"
    and n: "0 \<le> top_n"
  shows "\<exists>h' result out.
      get_top_artists sort_values h data top_n = Inr (h', result) \<and>
      objs h' result = Averaged out \<and>
      (\<forall>r\<in>set (add_avg_rank_value rs).
         avg_rank_value r = mean (map rank_value (filter (\<lambda>x. ArtistName x = ArtistName r) rs))) \<and>
      distinct (map ArtistName (top_artists sort_values (add_avg_rank_value rs) top_n)) \<and>
      image ArtistName (set out) = image ArtistName (set (top_artists sort_values (add_avg_rank_value rs) top_n)) \<and>
      card (image ArtistName (set out)) = min (nat top_n) (card (image ArtistName (set rs))) \<and>
      (card (image ArtistName (set rs)) \<le> nat top_n \<longrightarrow> out = add_avg_rank_value rs) \<and>
      out = filter (\<lambda>r. ArtistName r \<in> image ArtistName (set out)) (add_avg_rank_value rs) \<and>
      map (\<lambda>r. \<lparr>ArtistName = ArtistName r, Year = Year r, num_songs = num_songs r,
                 avg_popularity = avg_popularity r, rank_value = rank_value r\<rparr>) out =
        filter (\<lambda>r. ArtistName r \<in> image ArtistName (set out)) rs \<and>
      (\<forall>a\<in>set out. \<forall>b\<in>set (add_avg_rank_value rs).
         ArtistName b \<notin> image ArtistName (set out) \<longrightarrow> avg_rank_value b \<le> avg_rank_value a)"
proof -
  let ?xs = "add_avg_rank_value rs"
  let ?s = "sort_values ?xs"
  let ?top = "top_artists sort_values ?xs top_n"
  let ?out = "rows_isin ?xs ?top"
  from srt have perm: "mset ?s = mset ?xs"
    and desc: "sorted_wrt (\<lambda>a b. avg_rank_value a \<ge> avg_rank_value b) ?s"
    by (simp_all add: sorts_descending_def)
  have top: "?top = head top_n (drop_duplicates ?s)" by (simp add: top_artists_def)
  have sub: "set ?top \<subseteq> set ?xs" unfolding top by (rule top_subset[OF perm])
  have names: "image ArtistName (set ?out) = image ArtistName (set ?top)" by (rule isin_names[OF sub])
  have names_xs: "image ArtistName (set ?xs) = image ArtistName (set rs)"
    using add_avg_names[of rs] by (metis set_map)
  obtain h' result where res: "alloc (assign h data (Averaged ?xs)) (Averaged ?out) = (h', result)"
    by (cases "alloc (assign h data (Averaged ?xs)) (Averaged ?out)")
  have c1: "get_top_artists sort_values h data top_n = Inr (h', result)"
    using get_top_ranked[OF ranked] res by simp
  have c2: "objs h' result = Averaged ?out" using objs_alloc[OF res] by blast
  have c3: "\<forall>r\<in>set ?xs. avg_rank_value r = mean (map rank_value (filter (\<lambda>x. ArtistName x = ArtistName r) rs))"
    by (simp add: add_avg_value)
  have c4: "distinct (map ArtistName ?top)" unfolding top by (rule top_distinct)
  have c5: "card (image ArtistName (set ?out)) = min (nat top_n) (card (image ArtistName (set rs)))"
  proof -
    have "card (image ArtistName (set ?out)) = card (image ArtistName (set (head top_n (drop_duplicates ?s))))"
      using names top by simp
    also have "\<dots> = length (head top_n (drop_duplicates ?s))" by (rule top_card)
    also have "\<dots> = min (nat top_n) (card (image ArtistName (set ?xs)))" by (rule top_length[OF perm n])
    finally show ?thesis using names_xs by simp
  qed
  have c7: "?out = filter (\<lambda>r. ArtistName r \<in> image ArtistName (set ?out)) ?xs"
    by (rule isin_fixpoint[OF sub])
  have c6: "card (image ArtistName (set rs)) \<le> nat top_n \<longrightarrow> ?out = ?xs"
  proof
    assume le: "card (image ArtistName (set rs)) \<le> nat top_n"
    have "image ArtistName (set ?out) \<subseteq> image ArtistName (set ?xs)" by (auto simp: rows_isin_def)
    moreover have "card (image ArtistName (set ?out)) = card (image ArtistName (set ?xs))"
      using c5 le names_xs by simp
    ultimately have "image ArtistName (set ?out) = image ArtistName (set ?xs)"
      by (simp add: card_subset_eq)
    then have "filter (\<lambda>r. ArtistName r \<in> image ArtistName (set ?out)) ?xs = ?xs" by simp
    with c7 show "?out = ?xs" by simp
  qed
  have c8: "map (\<lambda>r. \<lparr>ArtistName = ArtistName r, Year = Year r, num_songs = num_songs r,
                 avg_popularity = avg_popularity r, rank_value = rank_value r\<rparr>) ?out =
        filter (\<lambda>r. ArtistName r \<in> image ArtistName (set ?out)) rs"
    by (subst c7) (rule filter_truncate)
  have c9: "\<forall>a\<in>set ?out. \<forall>b\<in>set ?xs.
         ArtistName b \<notin> image ArtistName (set ?out) \<longrightarrow> avg_rank_value b \<le> avg_rank_value a"
  proof (intro ballI impI)
    fix a b assume a: "a \<in> set ?out" and b: "b \<in> set ?xs"
      and nb: "ArtistName b \<notin> image ArtistName (set ?out)"
    have axs: "a \<in> set ?xs" using a by (simp add: rows_isin_def)
    have an: "ArtistName a \<in> image ArtistName (set (head top_n (drop_duplicates ?s)))"
      using a names top by (metis imageI)
    have bn: "ArtistName b \<notin> image ArtistName (set (head top_n (drop_duplicates ?s)))"
      using nb names top by simp
    show "avg_rank_value b \<le> avg_rank_value a"
      by (rule top_order[OF perm desc add_avg_keyed axs an b bn])
  qed
  show ?thesis
    using c1 c2 c3 c4 names c5 c6 c7 c8 c9 by blast
qed

theorem get_top_artists_selection_witness:
  "objs (store_of (Ranked ranked_example)) 0 = Ranked ranked_example \<and>
   sorts_descending stable_descending (add_avg_rank_value ranked_example) \<and> (0::int) \<le> 1 \<and>
   (\<exists>h' result out.
      get_top_artists stable_descending (store_of (Ranked ranked_example)) 0 1 = Inr (h', result) \<and>
      objs h' result = Averaged out \<and>
      card (image ArtistName (set out)) = min (nat 1) (card (image ArtistName (set ranked_example))) \<and>
      out = filter (\<lambda>r. ArtistName r \<in> image ArtistName (set out)) (add_avg_rank_value ranked_example))"
proof -
  have h1: "objs (store_of (Ranked ranked_example)) 0 = Ranked ranked_example" by (rule objs_store_of)
  have h2: "sorts_descending stable_descending (add_avg_rank_value ranked_example)"
    by (rule sorts_descending_stable)
  have h3: "(0::int) \<le> 1" by simp
  from get_top_artists_selection[OF h1 h2 h3] obtain h' result out where
    "get_top_artists stable_descending (store_of (Ranked ranked_example)) 0 1 = Inr (h', result)"
    "objs h' result = Averaged out"
    "card (image ArtistName (set out)) = min (nat 1) (card (image ArtistName (set ranked_example)))"
    "out = filter (\<lambda>r. ArtistName r \<in> image ArtistName (set out)) (add_avg_rank_value ranked_example)"
    by blast
  with h1 h2 h3 show ?thesis by blast
qed

text \<open>
  C3. On a frame as the query returns it, \<open>calculate_rank_value\<close> gives every row the rank
  value \<open>weight_x * num_songs + weight_y * avg_popularity\<close>, for any two weights. With
  the default weights, 10 songs of popularity 50 score 30 and 5 songs of popularity 90 score
  47.5; of two such artists, the selection of one artist returns the second, whatever
  descending sort is used.
\<close>

theorem rank_value_weighted_sum:
  "(objs h data = Raw rs \<longrightarrow>
      objs (fst (calculate_rank_value h data weight_x weight_y)) data =
        Ranked (map (\<lambda>r. \<lparr>ArtistName = ArtistName r, Year = Year r, num_songs = num_songs r,
                           avg_popularity = avg_popularity r,
                           rank_value = weight_x * of_int (num_songs r) + weight_y * avg_popularity r\<rparr>) rs)) \<and>
   rank_of default_weight default_weight \<lparr>ArtistName = a, Year = y, num_songs = 10, avg_popularity = 50\<rparr> = 30 \<and>
   rank_of default_weight default_weight \<lparr>ArtistName = b, Year = y, num_songs = 5, avg_popularity = 90\<rparr> = 95 / 2 \<and>
   (a \<noteq> b \<and> (\<forall>xs. sorts_descending sort_values xs) \<and>
    objs h data = Raw [\<lparr>ArtistName = a, Year = y, num_songs = 10, avg_popularity = 50\<rparr>,
                       \<lparr>ArtistName = b, Year = y, num_songs = 5, avg_popularity = 90\<rparr>] \<longrightarrow>
    (\<exists>h' result.
       get_top_artists sort_values (fst (calculate_rank_value h data default_weight default_weight)) data 1
         = Inr (h', result) \<and>
       objs h' result = Averaged [\<lparr>ArtistName = b, Year = y, num_songs = 5, avg_popularity = 90,
                                   rank_value = 95 / 2, avg_rank_value = 95 / 2\<rparr>]))"
proof (intro conjI impI)
  assume raw: "objs h data = Raw rs"
  then show "objs (fst (calculate_rank_value h data weight_x weight_y)) data =
        Ranked (map (\<lambda>r. \<lparr>ArtistName = ArtistName r, Year = Year r, num_songs = num_songs r,
                           avg_popularity = avg_popularity r,
                           rank_value = weight_x * of_int (num_songs r) + weight_y * avg_popularity r\<rparr>) rs)"
    by (simp add: calc_raw rank_of_def mult.commute objs_assign)
next
  show "rank_of default_weight default_weight \<lparr>ArtistName = a, Year = y, num_songs = 10, avg_popularity = 50\<rparr> = 30"
    by (simp add: rank_of_def default_weight_def)
next
  show "rank_of default_weight default_weight \<lparr>ArtistName = b, Year = y, num_songs = 5, avg_popularity = 90\<rparr> = 95 / 2"
    by (simp add: rank_of_def default_weight_def)
next
  let ?A = "\<lparr>ArtistName = a, Year = y, num_songs = 10, avg_popularity = 50, rank_value = 30\<rparr>"
  let ?B = "\<lparr>ArtistName = b, Year = y, num_songs = 5, avg_popularity = 90, rank_value = 95 / 2\<rparr>"
  let ?A' = "\<lparr>ArtistName = a, Year = y, num_songs = 10, avg_popularity = 50, rank_value = 30, avg_rank_value = 30\<rparr>"
  let ?B' = "\<lparr>ArtistName = b, Year = y, num_songs = 5, avg_popularity = 90, rank_value = 95 / 2, avg_rank_value = 95 / 2\<rparr>"
  let ?h1 = "fst (calculate_rank_value h data default_weight default_weight)"
  assume asm: "a \<noteq> b \<and> (\<forall>xs. sorts_descending sort_values xs) \<and>
    objs h data = Raw [\<lparr>ArtistName = a, Year = y, num_songs = 10, avg_popularity = 50\<rparr>,
                       \<lparr>ArtistName = b, Year = y, num_songs = 5, avg_popularity = 90\<rparr>]"
  then have ab: "a \<noteq> b" and srt: "sorts_descending sort_values [?A', ?B']"
    and raw: "objs h data = Raw [\<lparr>ArtistName = a, Year = y, num_songs = 10, avg_popularity = 50\<rparr>,
                       \<lparr>ArtistName = b, Year = y, num_songs = 5, avg_popularity = 90\<rparr>]"
    by blast+
  have o1: "objs ?h1 data = Ranked [?A, ?B]"
    using raw by (simp add: calc_raw rank_of_def default_weight_def objs_assign)
  have avg: "add_avg_rank_value [?A, ?B] = [?A', ?B']"
    using ab by (simp add: add_avg_rank_value_def group_mean_rank_def mean_def)
  have "sort_values [?A', ?B'] = [?B', ?A']"
    using srt mset_pair_cases[of "sort_values [?A', ?B']" ?A' ?B']
    by (auto simp: sorts_descending_def)
  then have top: "top_artists sort_values [?A', ?B'] 1 = [?B']"
    using ab by (simp add: top_artists_def head_def drop_duplicates_def)
  have isin: "rows_isin [?A', ?B'] [?B'] = [?B']"
    using ab by (simp add: rows_isin_def)
  obtain h' result where res:
    "alloc (assign ?h1 data (Averaged [?A', ?B'])) (Averaged [?B']) = (h', result)"
    by (cases "alloc (assign ?h1 data (Averaged [?A', ?B'])) (Averaged [?B'])")
  have "get_top_artists sort_values ?h1 data 1 = Inr (h', result)"
    using get_top_ranked[OF o1, of sort_values 1] avg top isin res by simp
  moreover have "objs h' result = Averaged [?B']" using objs_alloc[OF res] by blast
  ultimately show "\<exists>h' result.
       get_top_artists sort_values ?h1 data 1 = Inr (h', result) \<and> objs h' result = Averaged [?B']"
    by blast
qed

theorem rank_value_weighted_sum_witness:
  "objs (store_of (Raw raw_example)) 0 = Raw raw_example \<and>
   ''A'' \<noteq> ''B'' \<and> (\<forall>xs. sorts_descending stable_descending xs) \<and>
   objs (fst (calculate_rank_value (store_of (Raw raw_example)) 0 (1 / 4) 2)) 0 =
     Ranked [\<lparr>ArtistName = ''A'', Year = 2000, num_songs = 10, avg_popularity = 50, rank_value = 205 / 2\<rparr>,
             \<lparr>ArtistName = ''B'', Year = 2000, num_songs = 5, avg_popularity = 90, rank_value = 725 / 4\<rparr>] \<and>
   (\<exists>h' result.
       get_top_artists stable_descending
         (fst (calculate_rank_value (store_of (Raw raw_example)) 0 default_weight default_weight)) 0 1
         = Inr (h', result) \<and>
       objs h' result = Averaged [\<lparr>ArtistName = ''B'', Year = 2000, num_songs = 5, avg_popularity = 90,
                                   rank_value = 95 / 2, avg_rank_value = 95 / 2\<rparr>])"
proof -
  have h1: "objs (store_of (Raw raw_example)) 0 = Raw raw_example" by (rule objs_store_of)
  have h2: "''A'' \<noteq> ''B''" by simp
  have h3: "\<forall>xs. sorts_descending stable_descending xs" by (simp add: sorts_descending_stable)
  have h4: "objs (store_of (Raw raw_example)) 0 =
      Raw [\<lparr>ArtistName = ''A'', Year = 2000, num_songs = 10, avg_popularity = 50\<rparr>,
           \<lparr>ArtistName = ''B'', Year = 2000, num_songs = 5, avg_popularity = 90\<rparr>]"
    by (simp add: objs_store_of raw_example_def)
  show ?thesis
    using rank_value_weighted_sum[of "store_of (Raw raw_example)" 0 raw_example "1 / 4" 2
            "''A''" 2000 "''B''" stable_descending] h1 h2 h3 h4
    by (simp add: raw_example_def)
qed

text \<open>
  C5, as the code has it. Line 91 does not ask for a stable sort. In \<open>ascending_example\<close>
  the rows come in ascending order of the mean and the artists C and D, in this order, share
  the highest mean. The frame read backwards is the same rows in descending order, so it is
  a result the sort may return; with it the selection of one artist returns D, not C.
\<close>

theorem tie_broken_against_input_order:
  "add_avg_rank_value ascending_example =
     [\<lparr>ArtistName = ''A'', Year = 2000, num_songs = 10, avg_popularity = 10, rank_value = 10, avg_rank_value = 10\<rparr>,
      \<lparr>ArtistName = ''B'', Year = 2000, num_songs = 10, avg_popularity = 50, rank_value = 30, avg_rank_value = 30\<rparr>,
      \<lparr>ArtistName = ''C'', Year = 2000, num_songs = 10, avg_popularity = 90, rank_value = 50, avg_rank_value = 50\<rparr>,
      \<lparr>ArtistName = ''D'', Year = 2000, num_songs = 20, avg_popularity = 80, rank_value = 50, avg_rank_value = 50\<rparr>] \<and>
   sorts_descending rev (add_avg_rank_value ascending_example) \<and>
   returned_frame (get_top_artists rev (store_of (Ranked ascending_example)) 0 1) =
     Inr (Averaged [\<lparr>ArtistName = ''D'', Year = 2000, num_songs = 20, avg_popularity = 80,
                     rank_value = 50, avg_rank_value = 50\<rparr>])"
  unfolding get_top_ranked[OF objs_store_of] ascending_example_averaged
  by (simp add: sorts_descending_def returned_frame_def alloc_def assign_def rows_isin_def
        top_artists_def head_def drop_duplicates_def)

text \<open>
  C5, amended. When the sort used keeps rows with equal keys in the order of the frame,
  ties are broken by input order: of two artists with equal mean rank value, the one whose
  first row comes later in the frame is chosen only if the one seen first is chosen too.
\<close>

theorem stable_sort_first_seen_wins:
  assumes ranked: "objs h data = Ranked rs"
    and srt: "sorts_descending sort_values (add_avg_rank_value rs)"
    and stable: "\<forall>k. filter (\<lambda>r. avg_rank_value r = k) (sort_values (add_avg_rank_value rs)) =
                     filter (\<lambda>r. avg_rank_value r = k) (add_avg_rank_value rs)"
    and rows: "ra \<in> set rs" "rb \<in> set rs"
    and tie: "group_mean_rank rs ra = group_mean_rank rs rb"
    and first: "ArtistName ra \<in> set (takeWhile (\<lambda>x. x \<noteq> ArtistName rb) (map ArtistName rs))"
    and res: "returned_frame (get_top_artists sort_values h data top_n) = Inr (Averaged out)"
    and chosen: "ArtistName rb \<in> image ArtistName (set out)"
  shows "ArtistName ra \<in> image ArtistName (set out)"
proof -
  let ?xs = "add_avg_rank_value rs"
  let ?s = "sort_values ?xs"
  let ?k = "group_mean_rank rs rb"
  let ?top = "head top_n (drop_duplicates ?s)"
  from srt have perm: "mset ?s = mset ?xs" by (simp add: sorts_descending_def)
  then have sets: "set ?s = set ?xs" by (rule mset_eq_setD)
  have sub: "set ?top \<subseteq> set ?xs" by (rule top_subset[OF perm])
  have out: "out = rows_isin ?xs (top_artists sort_values ?xs top_n)"
    using res get_top_ranked[OF ranked, of sort_values top_n]
    by (simp add: returned_frame_def alloc_def)
  then have names: "image ArtistName (set out) = image ArtistName (set ?top)"
    using isin_names[OF sub] by (simp add: top_artists_def)
  have avg_name: "avg_rank_value r = ?k"
    if "r \<in> set ?xs" "ArtistName r = ArtistName ra \<or> ArtistName r = ArtistName rb" for r
    using that tie by (auto simp: add_avg_rank_value_def group_mean_rank_def)
  have "takeWhile (\<lambda>x. x \<noteq> ArtistName rb) (map ArtistName rs) =
        map ArtistName (takeWhile (\<lambda>r. ArtistName r \<noteq> ArtistName rb) ?xs)"
    by (simp add: add_avg_rank_value_def takeWhile_map comp_def)
  with first have first': "ArtistName ra \<in> image ArtistName (set (takeWhile (\<lambda>r. ArtistName r \<noteq> ArtistName rb) ?xs))"
    by simp
  have "ArtistName ra \<in> image ArtistName (set ?top)"
    using stable_first_seen[OF sets _ avg_name first', of top_n] stable chosen names by blast
  with names show ?thesis by simp
qed

theorem stable_sort_first_seen_wins_witness:
  "objs (store_of (Ranked tied_example)) 0 = Ranked tied_example \<and>
   sorts_descending stable_descending (add_avg_rank_value tied_example) \<and>
   (\<forall>k. filter (\<lambda>r. avg_rank_value r = k) (stable_descending (add_avg_rank_value tied_example)) =
        filter (\<lambda>r. avg_rank_value r = k) (add_avg_rank_value tied_example)) \<and>
   group_mean_rank tied_example (tied_example ! 0) = group_mean_rank tied_example (tied_example ! 1) \<and>
   ArtistName (tied_example ! 0)
     \<in> set (takeWhile (\<lambda>x. x \<noteq> ArtistName (tied_example ! 1)) (map ArtistName tied_example)) \<and>
   returned_frame (get_top_artists stable_descending (store_of (Ranked tied_example)) 0 2) =
     Inr (Averaged (take 2 (add_avg_rank_value tied_example))) \<and>
   ArtistName (tied_example ! 1) \<in> image ArtistName (set (take 2 (add_avg_rank_value tied_example))) \<and>
   ArtistName (tied_example ! 0) \<in> image ArtistName (set (take 2 (add_avg_rank_value tied_example))) \<and>
   ArtistName (tied_example ! 2) \<notin> image ArtistName (set (take 2 (add_avg_rank_value tied_example)))"
proof -
  have h1: "objs (store_of (Ranked tied_example)) 0 = Ranked tied_example" by (rule objs_store_of)
  have h2: "sorts_descending stable_descending (add_avg_rank_value tied_example)"
    by (rule sorts_descending_stable)
  have h3: "\<forall>k. filter (\<lambda>r. avg_rank_value r = k) (stable_descending (add_avg_rank_value tied_example)) =
        filter (\<lambda>r. avg_rank_value r = k) (add_avg_rank_value tied_example)"
    by (simp add: stable_descending_stable)
  have h4: "tied_example ! 0 \<in> set tied_example" "tied_example ! 1 \<in> set tied_example"
    by (simp_all add: tied_example_def)
  have h5: "group_mean_rank tied_example (tied_example ! 0) = group_mean_rank tied_example (tied_example ! 1)"
    by (simp add: tied_example_def group_mean_rank_def mean_def)
  have h6: "ArtistName (tied_example ! 0)
     \<in> set (takeWhile (\<lambda>x. x \<noteq> ArtistName (tied_example ! 1)) (map ArtistName tied_example))"
    by (simp add: tied_example_def)
  have h7: "returned_frame (get_top_artists stable_descending (store_of (Ranked tied_example)) 0 2) =
     Inr (Averaged (take 2 (add_avg_rank_value tied_example)))"
    unfolding get_top_ranked[OF h1] tied_example_averaged
    by (simp add: returned_frame_def alloc_def assign_def rows_isin_def
        top_artists_def head_def drop_duplicates_def stable_descending_def)
  have h8: "ArtistName (tied_example ! 1) \<in> image ArtistName (set (take 2 (add_avg_rank_value tied_example)))"
    unfolding tied_example_averaged by (simp add: tied_example_def)
  have h9: "ArtistName (tied_example ! 2) \<notin> image ArtistName (set (take 2 (add_avg_rank_value tied_example)))"
    unfolding tied_example_averaged by (simp add: tied_example_def)
  have "ArtistName (tied_example ! 0) \<in> image ArtistName (set (take 2 (add_avg_rank_value tied_example)))"
    by (rule stable_sort_first_seen_wins[OF h1 h2 h3 h4 h5 h6 h7 h8])
  with h1 h2 h3 h5 h6 h7 h8 h9 show ?thesis by blast
qed

text \<open>
  C6. When the query returns no rows, \<open>get_top_5_artists_by_year_range\<close> raises nothing,
  prints the message for the year range and returns \<^verbatim>\<open>None\<close>, with no table and no
  plot, and \<open>plot_top_5_artists_rank_values\<close> stops there too; \<open>fetch_year_summary_and_plot\<close>
  prints the message for the year and neither aggregates nor plots.
\<close>

theorem empty_result_signalled:
  "(query start_year end_year = [] \<longrightarrow>
      get_top_5_artists_by_year_range sort_values query start_year end_year
        = Inr ([NoDataFound start_year end_year], None) \<and>
      plot_top_5_artists_rank_values sort_values query start_year end_year
        = Inr [NoDataFound start_year end_year]) \<and>
   (summary_query year = [] \<longrightarrow>
      fetch_year_summary_and_plot summary_query year = Inr [NoDataAvailable year])"
  by (simp add: get_top_5_artists_by_year_range_def plot_top_5_artists_rank_values_def
        fetch_year_summary_and_plot_def)

theorem empty_result_signalled_witness:
  "(\<lambda>_ _. []) (2030::int) (2031::int) = ([] :: artist_row list) \<and>
   (\<lambda>_. []) (1999::int) = ([] :: summary_row list) \<and>
   get_top_5_artists_by_year_range stable_descending (\<lambda>_ _. []) 2030 2031 = Inr ([NoDataFound 2030 2031], None) \<and>
   plot_top_5_artists_rank_values stable_descending (\<lambda>_ _. []) 2030 2031 = Inr [NoDataFound 2030 2031] \<and>
   fetch_year_summary_and_plot (\<lambda>_. []) 1999 = Inr [NoDataAvailable 1999]"
  using empty_result_signalled[of "\<lambda>_ _. []" 2030 2031 stable_descending "\<lambda>_. []" 1999]
  by simp

text \<open>
  C10. \<open>calculate_rank_value\<close> returns the reference it was given, and the object behind it
  then has the column \<^verbatim>\<open>rank_value\<close> in addition to its earlier columns, whose values,
  row by row, are as before; no other object changes. \<open>get_top_artists\<close> likewise leaves
  the caller's object with the one added column \<^verbatim>\<open>avg_rank_value\<close> and all else as
  before, and returns a different, new object.
\<close>

theorem columns_assigned_in_place:
  "(objs h data = Raw rs \<longrightarrow>
      snd (calculate_rank_value h data weight_x weight_y) = data \<and>
      fresh (fst (calculate_rank_value h data weight_x weight_y)) = fresh h \<and>
      (\<forall>ref. ref \<noteq> data \<longrightarrow>
         objs (fst (calculate_rank_value h data weight_x weight_y)) ref = objs h ref) \<and>
      (\<exists>rs1. objs (fst (calculate_rank_value h data weight_x weight_y)) data = Ranked rs1 \<and>
         map (\<lambda>r. \<lparr>ArtistName = ArtistName r, Year = Year r, num_songs = num_songs r,
                    avg_popularity = avg_popularity r\<rparr>) rs1 = rs)) \<and>
   (objs h data = Ranked rs' \<and> data < fresh h \<longrightarrow>
      (\<exists>h2 result rs2.
         get_top_artists sort_values h data top_n = Inr (h2, result) \<and>
         result \<noteq> data \<and>
         objs h2 data = Averaged rs2 \<and>
         map (\<lambda>r. \<lparr>ArtistName = ArtistName r, Year = Year r, num_songs = num_songs r,
                    avg_popularity = avg_popularity r, rank_value = rank_value r\<rparr>) rs2 = rs' \<and>
         (\<forall>ref. ref \<noteq> data \<and> ref \<noteq> result \<longrightarrow> objs h2 ref = objs h ref)))"
proof (intro conjI impI)
  assume raw: "objs h data = Raw rs"
  show "snd (calculate_rank_value h data weight_x weight_y) = data"
    by (simp add: calc_raw[OF raw])
  show "fresh (fst (calculate_rank_value h data weight_x weight_y)) = fresh h"
    by (simp add: calc_raw[OF raw] fresh_assign)
  show "\<forall>ref. ref \<noteq> data \<longrightarrow>
         objs (fst (calculate_rank_value h data weight_x weight_y)) ref = objs h ref"
    by (simp add: calc_raw[OF raw] objs_assign)
  show "\<exists>rs1. objs (fst (calculate_rank_value h data weight_x weight_y)) data = Ranked rs1 \<and>
         map (\<lambda>r. \<lparr>ArtistName = ArtistName r, Year = Year r, num_songs = num_songs r,
                    avg_popularity = avg_popularity r\<rparr>) rs1 = rs"
    by (simp add: calc_raw[OF raw] objs_assign comp_def artist_row_eta)
next
  assume "objs h data = Ranked rs' \<and> data < fresh h"
  then have ranked: "objs h data = Ranked rs'" and live: "data < fresh h" by simp_all
  let ?xs = "add_avg_rank_value rs'"
  let ?out = "rows_isin ?xs (top_artists sort_values ?xs top_n)"
  let ?h2 = "fst (alloc (assign h data (Averaged ?xs)) (Averaged ?out))"
  have call: "get_top_artists sort_values h data top_n = Inr (?h2, fresh h)"
    by (simp add: get_top_ranked[OF ranked] alloc_def fresh_assign)
  have "objs ?h2 data = Averaged ?xs"
    using live by (simp add: alloc_def objs_assign fresh_assign)
  moreover have "map (\<lambda>r. \<lparr>ArtistName = ArtistName r, Year = Year r, num_songs = num_songs r,
                    avg_popularity = avg_popularity r, rank_value = rank_value r\<rparr>) ?xs = rs'"
    by (simp add: add_avg_rank_value_def comp_def ranked_row_eta)
  moreover have "\<forall>ref. ref \<noteq> data \<and> ref \<noteq> fresh h \<longrightarrow> objs ?h2 ref = objs h ref"
    by (simp add: alloc_def objs_assign fresh_assign)
  moreover have "fresh h \<noteq> data" using live by simp
  ultimately show "\<exists>h2 result rs2.
         get_top_artists sort_values h data top_n = Inr (h2, result) \<and>
         result \<noteq> data \<and>
         objs h2 data = Averaged rs2 \<and>
         map (\<lambda>r. \<lparr>ArtistName = ArtistName r, Year = Year r, num_songs = num_songs r,
                    avg_popularity = avg_popularity r, rank_value = rank_value r\<rparr>) rs2 = rs' \<and>
         (\<forall>ref. ref \<noteq> data \<and> ref \<noteq> result \<longrightarrow> objs h2 ref = objs h ref)"
    using call by blast
qed

theorem columns_assigned_in_place_witness:
  "objs (store_of (Raw raw_example)) 0 = Raw raw_example \<and>
   objs (store_of (Ranked ranked_example)) 0 = Ranked ranked_example \<and>
   0 < fresh (store_of (Ranked ranked_example)) \<and>
   snd (calculate_rank_value (store_of (Raw raw_example)) 0 default_weight default_weight) = 0 \<and>
   (\<exists>rs1. objs (fst (calculate_rank_value (store_of (Raw raw_example)) 0 default_weight default_weight)) 0
            = Ranked rs1 \<and>
      map (\<lambda>r. \<lparr>ArtistName = ArtistName r, Year = Year r, num_songs = num_songs r,
                 avg_popularity = avg_popularity r\<rparr>) rs1 = raw_example) \<and>
   (\<exists>h2 result rs2.
      get_top_artists stable_descending (store_of (Ranked ranked_example)) 0 default_top_n = Inr (h2, result) \<and>
      result \<noteq> 0 \<and> objs h2 0 = Averaged rs2 \<and>
      map (\<lambda>r. \<lparr>ArtistName = ArtistName r, Year = Year r, num_songs = num_songs r,
                 avg_popularity = avg_popularity r, rank_value = rank_value r\<rparr>) rs2 = ranked_example)"
proof -
  have h1: "objs (store_of (Raw raw_example)) 0 = Raw raw_example" by (rule objs_store_of)
  have h2: "objs (store_of (Ranked ranked_example)) 0 = Ranked ranked_example" by (rule objs_store_of)
  have h3: "0 < fresh (store_of (Ranked ranked_example))" by (simp add: store_of_def)
  note t1 = columns_assigned_in_place[of "store_of (Raw raw_example)" 0 raw_example
            default_weight default_weight, THEN conjunct1, THEN mp, OF h1]
  note t2 = columns_assigned_in_place[of "store_of (Ranked ranked_example)" 0 _ _ _ ranked_example
            stable_descending default_top_n, THEN conjunct2, THEN mp, OF conjI[OF h2 h3]]
  have c1: "snd (calculate_rank_value (store_of (Raw raw_example)) 0 default_weight default_weight) = 0"
    by (rule t1[THEN conjunct1])
  have c2: "\<exists>rs1. objs (fst (calculate_rank_value (store_of (Raw raw_example)) 0 default_weight default_weight)) 0
            = Ranked rs1 \<and>
      map (\<lambda>r. \<lparr>ArtistName = ArtistName r, Year = Year r, num_songs = num_songs r,
                 avg_popularity = avg_popularity r\<rparr>) rs1 = raw_example"
    by (rule t1[THEN conjunct2, THEN conjunct2, THEN conjunct2])
  from t2 obtain h2' result rs2 where
    "get_top_artists stable_descending (store_of (Ranked ranked_example)) 0 default_top_n = Inr (h2', result)"
    "result \<noteq> 0" "objs h2' 0 = Averaged rs2"
    "map (\<lambda>r. \<lparr>ArtistName = ArtistName r, Year = Year r, num_songs = num_songs r,
                 avg_popularity = avg_popularity r, rank_value = rank_value r\<rparr>) rs2 = ranked_example"
    by blast
  then have c3: "\<exists>h2 result rs2.
      get_top_artists stable_descending (store_of (Ranked ranked_example)) 0 default_top_n = Inr (h2, result) \<and>
      result \<noteq> 0 \<and> objs h2 0 = Averaged rs2 \<and>
      map (\<lambda>r. \<lparr>ArtistName = ArtistName r, Year = Year r, num_songs = num_songs r,
                 avg_popularity = avg_popularity r, rank_value = rank_value r\<rparr>) rs2 = ranked_example"
    by blast
  show ?thesis
    by (intro conjI) (rule h1 h2 h3 c1 c2 c3)+
qed

text \<open>
  C1, as the code has it. The pieces are what lies between the delimiters, nothing is
  stripped from them: a genre field with two blanks behind the comma yields a label that
  begins with a blank.
\<close>

theorem labels_not_trimmed:
  "expand_rows [\<lparr>Genre = Some ''Pop,  Rock'', avg_popularity_artist = 80, avg_popularity_overall = 80\<rparr>] =
     Inr [\<lparr>Genre = Some ''Pop'', avg_popularity_artist = 80, avg_popularity_overall = 80\<rparr>,
          \<lparr>Genre = Some '' Rock'', avg_popularity_artist = 80, avg_popularity_overall = 80\<rparr>] \<and>
   trimmed '' Rock'' = ''Rock'' \<and> '' Rock'' \<noteq> ''Rock''"
  by (simp add: label_rows_def trimmed_def)

text \<open>
  C1, amended. A genre field made of one or more labels with the delimiter between them is
  split into exactly those labels, as they are. Both normalizers emit one row per label of
  every row whose genre is present, with the metrics of the row copied to each. The
  aggregate has one row per label that occurs in the expanded rows, and its rate metrics
  are the arithmetic means, its song count the sum, over the expanded rows with that label.
  The row with genre \<open>Pop, Rock\<close> and popularity 80 expands to \<open>Pop\<close> and \<open>Rock\<close> with 80
  each, and together with a \<open>Pop\<close> row of popularity 60 aggregates to \<open>Pop\<close> 70 and
  \<open>Rock\<close> 80.
\<close>

theorem normalizer_contract:
  "(ls \<noteq> [] \<and> (\<forall>l\<in>set ls. \<not> has_delim l) \<longrightarrow> split_genres (join_genres ls) = ls) \<and>
   ((\<forall>r\<in>set data. Genre r \<noteq> None) \<longrightarrow>
      expand_rows data =
        Inr (concat (map (\<lambda>row. map (\<lambda>l. \<lparr>Genre = Some l,
                                             avg_popularity_artist = avg_popularity_artist row,
                                             avg_popularity_overall = avg_popularity_overall row\<rparr>)
                                    (split_genres (the (Genre row)))) data))) \<and>
   (Genre row = Some g \<longrightarrow>
      explode (row # df) =
        map (\<lambda>l. \<lparr>Genre = Some l, AvgDanceability = AvgDanceability row, AvgDuration = AvgDuration row,
                   AvgPopularity = AvgPopularity row, TotalSongs = TotalSongs row\<rparr>) (split_genres g)
        @ explode df) \<and>
   (split_and_aggregate data = Inr out \<longrightarrow>
      (\<exists>rows. expand_rows data = Inr rows \<and>
         distinct (map Genre out) \<and> set (map Genre out) = set (map Genre rows) \<and>
         (\<forall>r\<in>set out.
            avg_popularity_artist r =
              mean (map avg_popularity_artist (filter (\<lambda>x. Genre x = Genre r) rows)) \<and>
            avg_popularity_overall r =
              mean (map avg_popularity_overall (filter (\<lambda>x. Genre x = Genre r) rows))))) \<and>
   distinct (map Genre (groupby_agg (explode df))) \<and>
   set (map Genre (groupby_agg (explode df))) = set (map Genre (explode df)) - {None} \<and>
   (\<forall>r\<in>set (groupby_agg (explode df)).
       AvgDanceability r = mean (map AvgDanceability (filter (\<lambda>x. Genre x = Genre r) (explode df))) \<and>
       AvgDuration r = mean (map AvgDuration (filter (\<lambda>x. Genre x = Genre r) (explode df))) \<and>
       AvgPopularity r = mean (map AvgPopularity (filter (\<lambda>x. Genre x = Genre r) (explode df))) \<and>
       TotalSongs r = sum_list (map TotalSongs (filter (\<lambda>x. Genre x = Genre r) (explode df)))) \<and>
   expand_rows [\<lparr>Genre = Some ''Pop, Rock'', avg_popularity_artist = 80, avg_popularity_overall = 80\<rparr>] =
     Inr [\<lparr>Genre = Some ''Pop'', avg_popularity_artist = 80, avg_popularity_overall = 80\<rparr>,
          \<lparr>Genre = Some ''Rock'', avg_popularity_artist = 80, avg_popularity_overall = 80\<rparr>] \<and>
   split_and_aggregate genre_example = Inr genre_example_out \<and>
   groupby_agg (explode summary_example) =
     [\<lparr>Genre = Some ''Pop'', AvgDanceability = 3 / 8, AvgDuration = 150, AvgPopularity = 70, TotalSongs = 5\<rparr>,
      \<lparr>Genre = Some ''Rock'', AvgDanceability = 1 / 2, AvgDuration = 200, AvgPopularity = 80, TotalSongs = 3\<rparr>]"
  apply (rule conjI, rule contract_split)
  apply (rule conjI, rule contract_expand)
  apply (rule conjI, rule contract_explode)
  apply (rule conjI, rule contract_aggregate)
  apply (rule conjI, rule contract_agg_distinct)
  apply (rule conjI, rule contract_agg_keys)
  apply (rule conjI, rule contract_agg_values)
  apply (rule conjI, rule genre_example_expand)
  apply (rule conjI, rule genre_example_aggregate)
  apply (rule summary_example_aggregate)
  done

theorem normalizer_contract_witness:
  "[''Pop'', ''Rock''] \<noteq> [] \<and> list_all (\<lambda>l. \<not> has_delim l) [''Pop'', ''Rock''] \<and>
   split_genres ''Pop, Rock'' = [''Pop'', ''Rock''] \<and>
   list_all (\<lambda>r. Genre r \<noteq> None) genre_example \<and>
   split_and_aggregate genre_example = Inr genre_example_out \<and>
   (\<exists>rows. expand_rows genre_example = Inr rows \<and>
      distinct (map Genre genre_example_out) \<and>
      set (map Genre genre_example_out) = set (map Genre rows) \<and>
      (\<forall>r\<in>set genre_example_out.
         avg_popularity_artist r =
           mean (map avg_popularity_artist (filter (\<lambda>x. Genre x = Genre r) rows)) \<and>
         avg_popularity_overall r =
           mean (map avg_popularity_overall (filter (\<lambda>x. Genre x = Genre r) rows))))"
proof -
  note t = normalizer_contract[of "[''Pop'', ''Rock'']" genre_example _ _ _ genre_example_out]
  have h1: "[''Pop'', ''Rock''] \<noteq> [] \<and> (\<forall>l\<in>set [''Pop'', ''Rock'']. \<not> has_delim l)" by simp
  have h2: "\<forall>r\<in>set genre_example. Genre r \<noteq> None" by (simp add: genre_example_def)
  have h3: "split_and_aggregate genre_example = Inr genre_example_out"
    by (rule genre_example_aggregate)
  have "split_genres (join_genres [''Pop'', ''Rock'']) = [''Pop'', ''Rock'']"
    by (rule t[THEN conjunct1, THEN mp, OF h1])
  then have c1: "split_genres ''Pop, Rock'' = [''Pop'', ''Rock'']" by simp
  note c2 = t[THEN conjunct2, THEN conjunct2, THEN conjunct2, THEN conjunct1, THEN mp, OF h3]
  from h1 have h1a: "[''Pop'', ''Rock''] \<noteq> []"
    and h1b: "list_all (\<lambda>l. \<not> has_delim l) [''Pop'', ''Rock'']"
    by simp_all
  from h2 have h2': "list_all (\<lambda>r. Genre r \<noteq> None) genre_example"
    by (simp add: list_all_iff)
  show ?thesis by (intro conjI h1a h1b c1 h2' h3 c2)
qed

text \<open>
  C4, as the code has it. On the specification's own example the overall average of the
  artist popularity is 70 before normalization and 75 after it.
\<close>

theorem overall_average_changed:
  "overall_average avg_popularity_artist
     [\<lparr>Genre = Some ''Pop, Rock'', avg_popularity_artist = 80, avg_popularity_overall = 80\<rparr>,
      \<lparr>Genre = Some ''Pop'', avg_popularity_artist = 60, avg_popularity_overall = 60\<rparr>] = 70 \<and>
   split_and_aggregate
     [\<lparr>Genre = Some ''Pop, Rock'', avg_popularity_artist = 80, avg_popularity_overall = 80\<rparr>,
      \<lparr>Genre = Some ''Pop'', avg_popularity_artist = 60, avg_popularity_overall = 60\<rparr>] =
     Inr [\<lparr>Genre = Some ''Pop'', avg_popularity_artist = 70, avg_popularity_overall = 70\<rparr>,
          \<lparr>Genre = Some ''Rock'', avg_popularity_artist = 80, avg_popularity_overall = 80\<rparr>] \<and>
   overall_average avg_popularity_artist
     [\<lparr>Genre = Some ''Pop'', avg_popularity_artist = 70, avg_popularity_overall = 70\<rparr>,
      \<lparr>Genre = Some ''Rock'', avg_popularity_artist = 80, avg_popularity_overall = 80\<rparr>] = 75"
  by (simp add: overall_average_def split_and_aggregate_def groupby_mean_def group_keys_def
        group_rows_def mean_def List.map_filter_def label_rows_def)

text \<open>
  C4, amended. Whenever \<open>split_and_aggregate\<close> returns (the frame is not empty and no
  genre is NULL), for each of the two metrics: the aggregate of a label is the arithmetic
  mean of the expanded rows with that label; the aggregates, each counted as often as its
  label occurs among the expanded rows, add up to the sum over the expanded rows, and that
  sum counts every input row once per label it has, with its value undivided. The overall
  average over the aggregated frame equals the overall average over the input when every
  input row has the same number of labels and every label occurs the same number of times
  among the expanded rows, and also when all input rows carry the same value.
\<close>

theorem overall_average_after_split:
  assumes call: "split_and_aggregate data = Inr out"
    and metric: "metric = avg_popularity_artist \<or> metric = avg_popularity_overall"
  shows "\<exists>rows. expand_rows data = Inr rows \<and>
     (\<forall>r\<in>set out. metric r = mean (map metric (filter (\<lambda>x. Genre x = Genre r) rows))) \<and>
     sum_list (map (\<lambda>r. of_nat (length (filter (\<lambda>x. Genre x = Genre r) rows)) * metric r) out)
       = sum_list (map metric rows) \<and>
     sum_list (map metric rows)
       = sum_list (map (\<lambda>r. of_nat (length (split_genres (the (Genre r)))) * metric r) data) \<and>
     ((\<forall>r\<in>set data. length (split_genres (the (Genre r))) = n) \<and>
      (\<forall>r\<in>set out. length (filter (\<lambda>x. Genre x = Genre r) rows) = m)
        \<longrightarrow> overall_average metric out = overall_average metric data) \<and>
     ((\<forall>r\<in>set data. metric r = c) \<longrightarrow> overall_average metric out = overall_average metric data)"
proof -
  define rows where "rows = concat (map (\<lambda>row. label_rows row (split_genres (the (Genre row)))) data)"
  have nonnull: "\<forall>r\<in>set data. Genre r \<noteq> None"
  proof (rule ccontr)
    assume "\<not> (\<forall>r\<in>set data. Genre r \<noteq> None)"
    then have "\<exists>r\<in>set data. Genre r = None" by simp
    then have "split_and_aggregate data = Inl AttributeError" by (rule split_and_aggregate_null)
    with call show False by simp
  qed
  then have ex: "expand_rows data = Inr rows" unfolding rows_def by (rule expand_rows_ok)
  with call have ne: "rows \<noteq> []" and out: "out = groupby_mean rows"
    by (auto simp: split_and_aggregate_def split: if_splits)
  have data_ne: "data \<noteq> []" using ne unfolding rows_def by auto
  have rows_nonnull: "\<forall>r\<in>set rows. Genre r \<noteq> None"
    unfolding rows_def by (rule expanded_nonnull)
  have c1: "\<forall>r\<in>set out. metric r = mean (map metric (filter (\<lambda>x. Genre x = Genre r) rows))"
    unfolding out using metric groupby_mean_values by blast
  have c2: "sum_list (map (\<lambda>r. of_nat (length (filter (\<lambda>x. Genre x = Genre r) rows)) * metric r) out)
       = sum_list (map metric rows)"
    unfolding out by (rule groupby_mean_weighted[OF metric rows_nonnull])
  have c3: "sum_list (map metric rows)
       = sum_list (map (\<lambda>r. of_nat (length (split_genres (the (Genre r)))) * metric r) data)"
    unfolding rows_def by (rule expanded_copies[OF metric])
  have c4: "(\<forall>r\<in>set data. length (split_genres (the (Genre r))) = n) \<and>
      (\<forall>r\<in>set out. length (filter (\<lambda>x. Genre x = Genre r) rows) = m)
        \<longrightarrow> overall_average metric out = overall_average metric data"
  proof
    assume asm: "(\<forall>r\<in>set data. length (split_genres (the (Genre r))) = n) \<and>
      (\<forall>r\<in>set out. length (filter (\<lambda>x. Genre x = Genre r) rows) = m)"
    then have lens: "\<forall>r\<in>set data. length (split_genres (the (Genre r))) = n" by blast
    from asm have "\<forall>x\<in>set (map (\<lambda>r. length (filter (\<lambda>x. Genre x = Genre r) rows)) out). x = m"
      by simp
    then have "\<forall>x\<in>set (map (\<lambda>k. length (group_rows rows k)) (group_keys rows)). x = m"
      unfolding out groupby_mean_sizes .
    then have sizes: "\<forall>k\<in>set (group_keys rows). length (group_rows rows k) = m" by simp
    have "overall_average metric out = overall_average metric rows"
      unfolding out by (rule equal_groups_average[OF metric rows_nonnull ne sizes])
    also have "\<dots> = overall_average metric data"
      unfolding rows_def by (rule equal_labels_average[OF metric data_ne lens])
    finally show "overall_average metric out = overall_average metric data" .
  qed
  have c5: "(\<forall>r\<in>set data. metric r = c) \<longrightarrow> overall_average metric out = overall_average metric data"
  proof
    assume const: "\<forall>r\<in>set data. metric r = c"
    then have "\<forall>r\<in>set rows. metric r = c" unfolding rows_def by (rule expanded_constant[OF metric])
    then have "overall_average metric out = c"
      unfolding out by (rule constant_average[OF metric rows_nonnull ne])
    moreover have "overall_average metric data = c"
      unfolding overall_average_def using data_ne const by (intro mean_constant) auto
    ultimately show "overall_average metric out = overall_average metric data" by simp
  qed
  show ?thesis
    by (rule exI[of _ rows]) (intro conjI ex c1 c2 c3 c4 c5)
qed

theorem overall_average_after_split_witness:
  "split_and_aggregate balanced_example = Inr balanced_example_out \<and>
   list_all (\<lambda>r. length (split_genres (the (Genre r))) = 2) balanced_example \<and>
   (\<exists>rows. expand_rows balanced_example = Inr rows \<and>
      list_all (\<lambda>r. length (filter (\<lambda>x. Genre x = Genre r) rows) = 2) balanced_example_out \<and>
      list_all (\<lambda>r. avg_popularity_artist r
                       = mean (map avg_popularity_artist (filter (\<lambda>x. Genre x = Genre r) rows)))
               balanced_example_out) \<and>
   overall_average avg_popularity_artist balanced_example_out
     = overall_average avg_popularity_artist balanced_example \<and>
   overall_average avg_popularity_artist balanced_example = 70"
proof -
  have h1: "split_and_aggregate balanced_example = Inr balanced_example_out"
    by (rule balanced_example_aggregate)
  have h2: "avg_popularity_artist = avg_popularity_artist \<or> avg_popularity_artist = avg_popularity_overall"
    by simp
  from overall_average_after_split[OF h1 h2, of 2 2 0] obtain rows where
    ex: "expand_rows balanced_example = Inr rows"
    and means: "\<forall>r\<in>set balanced_example_out.
        avg_popularity_artist r = mean (map avg_popularity_artist (filter (\<lambda>x. Genre x = Genre r) rows))"
    and bal: "(\<forall>r\<in>set balanced_example. length (split_genres (the (Genre r))) = 2) \<and>
      (\<forall>r\<in>set balanced_example_out. length (filter (\<lambda>x. Genre x = Genre r) rows) = 2)
        \<longrightarrow> overall_average avg_popularity_artist balanced_example_out
              = overall_average avg_popularity_artist balanced_example"
    by blast
  have rows: "rows =
     [\<lparr>Genre = Some ''Pop'', avg_popularity_artist = 80, avg_popularity_overall = 90\<rparr>,
      \<lparr>Genre = Some ''Rock'', avg_popularity_artist = 80, avg_popularity_overall = 90\<rparr>,
      \<lparr>Genre = Some ''Rock'', avg_popularity_artist = 60, avg_popularity_overall = 70\<rparr>,
      \<lparr>Genre = Some ''Pop'', avg_popularity_artist = 60, avg_popularity_overall = 70\<rparr>]"
    using ex balanced_example_expand by simp
  have h3: "\<forall>r\<in>set balanced_example. length (split_genres (the (Genre r))) = 2"
    by (simp add: balanced_example_def)
  have h4: "\<forall>r\<in>set balanced_example_out. length (filter (\<lambda>x. Genre x = Genre r) rows) = 2"
    unfolding rows by (simp add: balanced_example_out_def)
  have c: "overall_average avg_popularity_artist balanced_example_out
     = overall_average avg_popularity_artist balanced_example"
    using bal h3 h4 by blast
  have v: "overall_average avg_popularity_artist balanced_example = 70"
    by (simp add: overall_average_def mean_def balanced_example_def)
  have h3': "list_all (\<lambda>r. length (split_genres (the (Genre r))) = 2) balanced_example"
    using h3 by (simp add: list_all_iff)
  have e: "\<exists>rows. expand_rows balanced_example = Inr rows \<and>
      list_all (\<lambda>r. length (filter (\<lambda>x. Genre x = Genre r) rows) = 2) balanced_example_out \<and>
      list_all (\<lambda>r. avg_popularity_artist r
                       = mean (map avg_popularity_artist (filter (\<lambda>x. Genre x = Genre r) rows)))
               balanced_example_out"
    using ex h4 means by (intro exI[of _ rows]) (simp add: list_all_iff)
  show ?thesis by (intro conjI h1 h3' e c v)
qed

text \<open>
  C8. On a frame with a row whose genre is NULL, \<open>split_and_aggregate\<close> raises
  \<^verbatim>\<open>AttributeError\<close>, where the normalizer of Genres.py, on the same kind of frame, drops
  the row and aggregates the rest. A row whose genre is the empty string passes through
  both normalizers as the group of the empty label.
\<close>

theorem null_genre_raises:
  "split_and_aggregate
     [\<lparr>Genre = Some ''Pop'', avg_popularity_artist = 60, avg_popularity_overall = 60\<rparr>,
      \<lparr>Genre = None, avg_popularity_artist = 80, avg_popularity_overall = 80\<rparr>] = Inl AttributeError \<and>
   groupby_agg (explode
     [\<lparr>Genre = Some ''Pop'', AvgDanceability = 1 / 2, AvgDuration = 200, AvgPopularity = 60, TotalSongs = 2\<rparr>,
      \<lparr>Genre = None, AvgDanceability = 1 / 4, AvgDuration = 100, AvgPopularity = 80, TotalSongs = 3\<rparr>]) =
     [\<lparr>Genre = Some ''Pop'', AvgDanceability = 1 / 2, AvgDuration = 200, AvgPopularity = 60, TotalSongs = 2\<rparr>] \<and>
   split_and_aggregate
     [\<lparr>Genre = Some ''Pop'', avg_popularity_artist = 60, avg_popularity_overall = 60\<rparr>,
      \<lparr>Genre = Some [], avg_popularity_artist = 80, avg_popularity_overall = 80\<rparr>] =
     Inr [\<lparr>Genre = Some [], avg_popularity_artist = 80, avg_popularity_overall = 80\<rparr>,
          \<lparr>Genre = Some ''Pop'', avg_popularity_artist = 60, avg_popularity_overall = 60\<rparr>] \<and>
   groupby_agg (explode
     [\<lparr>Genre = Some ''Pop'', AvgDanceability = 1 / 2, AvgDuration = 200, AvgPopularity = 60, TotalSongs = 2\<rparr>,
      \<lparr>Genre = Some [], AvgDanceability = 1 / 4, AvgDuration = 100, AvgPopularity = 80, TotalSongs = 3\<rparr>]) =
     [\<lparr>Genre = Some [], AvgDanceability = 1 / 4, AvgDuration = 100, AvgPopularity = 80, TotalSongs = 3\<rparr>,
      \<lparr>Genre = Some ''Pop'', AvgDanceability = 1 / 2, AvgDuration = 200, AvgPopularity = 60, TotalSongs = 2\<rparr>]"
  by (simp add: split_and_aggregate_def explode_def groupby_agg_def groupby_mean_def group_keys_def
        group_rows_def mean_def List.map_filter_def label_rows_def)


text \<open>
  C9, on frames that are not empty. When the rows carry one label each, all different,
  \<open>split_and_aggregate\<close> returns the same rows, as a multiset, in the order of their
  labels. And whatever frame \<open>split_and_aggregate\<close> returns, running it on that frame
  returns the frame again.
\<close>

theorem single_label_rows_unchanged:
  "(data \<noteq> [] \<and> (\<forall>r\<in>set data. \<exists>g. Genre r = Some g \<and> \<not> has_delim g) \<and> distinct (map Genre data)
      \<longrightarrow> (\<exists>out. split_and_aggregate data = Inr out \<and> mset out = mset data \<and>
                  sorted (map (\<lambda>r. the (Genre r)) out))) \<and>
   (split_and_aggregate data = Inr out \<longrightarrow> split_and_aggregate out = Inr out)"
proof (intro conjI impI)
  assume asm: "data \<noteq> [] \<and> (\<forall>r\<in>set data. \<exists>g. Genre r = Some g \<and> \<not> has_delim g) \<and> distinct (map Genre data)"
  then have single: "\<forall>r\<in>set data. \<exists>g. Genre r = Some g \<and> \<not> has_delim g" by blast
  then have nonnull: "\<forall>r\<in>set data. Genre r \<noteq> None" by auto
  from asm have "split_and_aggregate data = Inr (groupby_mean data)"
    using expand_single_labels[OF single] by (simp add: split_and_aggregate_def)
  moreover have "mset (groupby_mean data) = mset data"
    using groupby_mean_distinct[OF nonnull] asm by blast
  moreover have "sorted (map (\<lambda>r. the (Genre r)) (groupby_mean data))"
    unfolding groupby_mean_labels by (rule group_keys_sorted)
  ultimately show "\<exists>out. split_and_aggregate data = Inr out \<and> mset out = mset data \<and>
                  sorted (map (\<lambda>r. the (Genre r)) out)" by blast
next
  assume "split_and_aggregate data = Inr out"
  then show "split_and_aggregate out = Inr out" by (rule split_and_aggregate_idem)
qed

theorem single_label_rows_unchanged_witness:
  "single_label_example \<noteq> [] \<and>
   list_all (\<lambda>r. \<exists>g. Genre r = Some g \<and> \<not> has_delim g) single_label_example \<and>
   distinct (map Genre single_label_example) \<and>
   (\<exists>out. split_and_aggregate single_label_example = Inr out \<and> mset out = mset single_label_example \<and>
          sorted (map (\<lambda>r. the (Genre r)) out)) \<and>
   split_and_aggregate genre_example = Inr genre_example_out \<and>
   split_and_aggregate genre_example_out = Inr genre_example_out"
proof -
  have h1: "single_label_example \<noteq> []" by (simp add: single_label_example_def)
  have h2: "\<forall>r\<in>set single_label_example. \<exists>g. Genre r = Some g \<and> \<not> has_delim g"
    by (simp add: single_label_example_def)
  have h3: "distinct (map Genre single_label_example)" by (simp add: single_label_example_def)
  have h4: "split_and_aggregate genre_example = Inr genre_example_out"
    by (rule genre_example_aggregate)
  note c1 = single_label_rows_unchanged[of single_label_example, THEN conjunct1, THEN mp,
              OF conjI[OF h1 conjI[OF h2 h3]]]
  note c2 = single_label_rows_unchanged[of genre_example genre_example_out, THEN conjunct2, THEN mp, OF h4]
  from h2 have h2': "list_all (\<lambda>r. \<exists>g. Genre r = Some g \<and> \<not> has_delim g) single_label_example"
    by (simp add: list_all_iff)
  show ?thesis by (intro conjI h1 h2' h3 c1 h4 c2)
qed

end
